theory Spec2Isabelle
  imports Complex_Main
begin

section \<open>JavaScript values\<close>

text \<open>
  The TypeScript types of the sources are erased when the program runs, so a decoded
  JSON body and a cached token are JavaScript values, of the kinds \<open>JSON.parse\<close> gives.
  Strings are byte lists (text in its UTF-8 encoding, header values byte for byte). A
  number is a finite value, \<open>NaN\<close> or an infinity; \<open>-0\<close> is \<open>Finite 0\<close>, which tests and
  prints like it. An object is the list of its own properties; a member that a JSON
  text writes twice counts as its last occurrence.
\<close>

datatype number = Finite rat | NaN | PlusInfinity | MinusInfinity

datatype jsvalue =
    JUndefined
  | JNull
  | JBool bool
  | JNum number
  | JStr string
  | JArr "jsvalue list"
  | JObj "(string \<times> jsvalue) list"

text \<open>A filter value and a cursor have the type
  \<open>string | number | boolean | undefined\<close>, which the tool schemas enforce.\<close>

datatype scalar = SUndefined | SStr string | SNum number | SBool bool

text \<open>The exceptions of the run time: \<open>new Error(message)\<close>, \<open>TypeError\<close> (a property
  read on \<open>null\<close>, an object that has no primitive value, an invalid URL, a failed
  fetch) and \<open>SyntaxError\<close> (a body that is not JSON).\<close>

datatype error = Error string | TypeError | SyntaxError

text \<open>Truthiness, as \<open>if (v)\<close> and \<open>v && ...\<close> test it.\<close>

fun number_truthy :: "number \<Rightarrow> bool" where
  "number_truthy (Finite q) = (q \<noteq> 0)"
| "number_truthy NaN = False"
| "number_truthy PlusInfinity = True"
| "number_truthy MinusInfinity = True"

fun ToBoolean :: "jsvalue \<Rightarrow> bool" where
  "ToBoolean JUndefined = False"
| "ToBoolean JNull = False"
| "ToBoolean (JBool b) = b"
| "ToBoolean (JNum n) = number_truthy n"
| "ToBoolean (JStr s) = (s \<noteq> [])"
| "ToBoolean (JArr xs) = True"
| "ToBoolean (JObj kvs) = True"

fun truthy :: "scalar \<Rightarrow> bool" where
  "truthy SUndefined = False"
| "truthy (SStr s) = (s \<noteq> [])"
| "truthy (SNum n) = number_truthy n"
| "truthy (SBool b) = b"

text \<open>Decimal notation of an integer.\<close>

definition digit_char :: "nat \<Rightarrow> char" where
  "digit_char d = ''0123456789'' ! d"

function show_nat :: "nat \<Rightarrow> string" where
  "show_nat n = (if n < 10 then [digit_char n] else show_nat (n div 10) @ [digit_char (n mod 10)])"
  by pat_completeness auto
termination
  by (relation "measure id") auto

declare show_nat.simps [simp del]

definition show_int :: "int \<Rightarrow> string" where
  "show_int i = (if i < 0 then CHR ''-'' # show_nat (nat (- i)) else show_nat (nat i))"

text \<open>An integer up to \<open>Number.MAX_SAFE_INTEGER\<close> in size: such a number prints as
  its decimal notation.\<close>

definition safe_integer :: "rat \<Rightarrow> bool" where
  "safe_integer q = (q = of_int \<lfloor>q\<rfloor> \<and> \<bar>\<lfloor>q\<rfloor>\<bar> \<le> 9007199254740991)"

fun join :: "string \<Rightarrow> string list \<Rightarrow> string" where
  "join sep [] = []"
| "join sep [x] = x"
| "join sep (x # y # ys) = x @ sep @ join sep (y # ys)"

text \<open>Reading a property \<open>v.name\<close>, for the two names the program reads
  (\<open>access_token\<close>, \<open>expires_at\<close>): \<open>null\<close> and \<open>undefined\<close> throw, an object gives the
  member or \<open>undefined\<close>, and no other value has such a property.\<close>

fun getProp :: "jsvalue \<Rightarrow> string \<Rightarrow> error + jsvalue" where
  "getProp JUndefined name = Inl TypeError"
| "getProp JNull name = Inl TypeError"
| "getProp (JObj kvs) name =
     Inr (case map_of (rev kvs) name of Some v \<Rightarrow> v | None \<Rightarrow> JUndefined)"
| "getProp v name = Inr JUndefined"

text \<open>A time value or \<open>NaN\<close>: \<open>None\<close> is \<open>NaN\<close>. A comparison with \<open>NaN\<close> is false,
  a difference with \<open>NaN\<close> is \<open>NaN\<close>.\<close>

type_synonym jsnumber = "int option"

fun num_sub :: "jsnumber \<Rightarrow> jsnumber \<Rightarrow> jsnumber" where
  "num_sub (Some a) (Some b) = Some (a - b)"
| "num_sub a b = None"

fun num_lt :: "jsnumber \<Rightarrow> jsnumber \<Rightarrow> bool" where
  "num_lt (Some a) (Some b) = (a < b)"
| "num_lt a b = False"

section \<open>The run time: requests, responses, effects\<close>

record request =
  http_method :: string
  url :: string
  headers :: "(string \<times> string) list"
  body :: "string option"

text \<open>A response, by what the program observes of it: \<open>status\<close>, \<open>statusText\<close>, the
  body as \<open>res.text()\<close> gives it, the result of \<open>res.json()\<close> (\<open>None\<close>: the body is not
  JSON and the promise rejects), and \<open>res.headers.get("link")\<close>.\<close>

record response =
  status :: nat
  statusText :: string
  bodyText :: string
  json :: "jsvalue option"
  linkHeader :: "string option"

definition ok :: "response \<Rightarrow> bool" where
  "ok res = (200 \<le> status res \<and> status res \<le> 299)"

datatype reply = NetworkError | Response response

text \<open>A parsed URL: the serialisation up to the query, the query string
  (\<open>None\<close>: no query), the list behind \<open>url.searchParams\<close>, and the fragment with
  its \<open>#\<close>.\<close>

record URL =
  origin_path :: string
  query :: "string option"
  searchParams :: "(string \<times> string) list"
  hash :: string

text \<open>What the program calls and does not define: \<open>fetch\<close> (how the network answers
  each request while one call runs; \<open>NetworkError\<close> when the promise rejects), the
  clock \<open>Date.now()\<close>, the time value \<open>new Date(p).getTime()\<close> of a primitive \<open>p\<close>,
  base64 of a buffer, the URL parser (\<open>None\<close>: \<open>new URL\<close> throws), \<open>JSON.stringify\<close>,
  and the notation of a finite number that is not a safe integer (a fraction, an
  exponent). Every theorem below holds for any such run time.\<close>

record runtime =
  fetch :: "request \<Rightarrow> reply"
  Date_now :: int
  Date_getTime :: "jsvalue \<Rightarrow> jsnumber"
  base64 :: "string \<Rightarrow> string"
  URL_new :: "string \<Rightarrow> URL option"
  JSON_stringify :: "jsvalue \<Rightarrow> string"
  print_number :: "rat \<Rightarrow> string"

section \<open>Conversions\<close>

text \<open>\<open>Number::toString\<close>: a safe integer prints in decimal; \<open>1e21\<close> prints as
  \<open>1e+21\<close> and \<open>0.5\<close> as \<open>0.5\<close>, by the run time.\<close>

definition Number_toString :: "runtime \<Rightarrow> number \<Rightarrow> string" where
  "Number_toString rt n =
     (case n of
        Finite q \<Rightarrow> if safe_integer q then show_int \<lfloor>q\<rfloor> else print_number rt q
      | NaN \<Rightarrow> ''NaN''
      | PlusInfinity \<Rightarrow> ''Infinity''
      | MinusInfinity \<Rightarrow> ''-Infinity'')"

text \<open>\<open>String(value)\<close> of a filter value or a cursor.\<close>

fun String :: "runtime \<Rightarrow> scalar \<Rightarrow> string" where
  "String rt SUndefined = ''undefined''"
| "String rt (SStr s) = s"
| "String rt (SNum n) = Number_toString rt n"
| "String rt (SBool b) = (if b then ''true'' else ''false'')"

text \<open>The string a template literal makes of an interpolated value. An array prints
  its elements separated by commas, \<open>null\<close> and \<open>undefined\<close> elements as nothing. An
  object prints as \<open>[object Object]\<close> through the \<open>toString\<close> it inherits; when it has
  a property \<open>toString\<close> of its own, which in a decoded body is never a function, it
  has no primitive value and the conversion throws.\<close>

fun ToString :: "runtime \<Rightarrow> jsvalue \<Rightarrow> error + string"
  and ToString_elements :: "runtime \<Rightarrow> jsvalue list \<Rightarrow> error + string list" where
  "ToString rt JUndefined = Inr ''undefined''"
| "ToString rt JNull = Inr ''null''"
| "ToString rt (JBool b) = Inr (if b then ''true'' else ''false'')"
| "ToString rt (JNum n) = Inr (Number_toString rt n)"
| "ToString rt (JStr s) = Inr s"
| "ToString rt (JArr xs) =
     (case ToString_elements rt xs of
        Inl e \<Rightarrow> Inl e
      | Inr ss \<Rightarrow> Inr (join '','' ss))"
| "ToString rt (JObj kvs) =
     (if ''toString'' \<in> fst ` set kvs then Inl TypeError else Inr ''[object Object]'')"
| "ToString_elements rt [] = Inr []"
| "ToString_elements rt (x # xs) =
     (case (if x = JUndefined \<or> x = JNull then Inr [] else ToString rt x) of
        Inl e \<Rightarrow> Inl e
      | Inr s \<Rightarrow>
          (case ToString_elements rt xs of
             Inl e \<Rightarrow> Inl e
           | Inr ss \<Rightarrow> Inr (s # ss)))"

text \<open>\<open>new Date(v).getTime()\<close>: the constructor first takes the primitive value of
  \<open>v\<close>, which for an array or an object is the string above, and throws when there is
  none.\<close>

fun is_object :: "jsvalue \<Rightarrow> bool" where
  "is_object (JArr xs) = True"
| "is_object (JObj kvs) = True"
| "is_object v = False"

definition new_Date_getTime :: "runtime \<Rightarrow> jsvalue \<Rightarrow> error + jsnumber" where
  "new_Date_getTime rt v =
     (if is_object v
      then (case ToString rt v of
              Inl e \<Rightarrow> Inl e
            | Inr s \<Rightarrow> Inr (Date_getTime rt (JStr s)))
      else Inr (Date_getTime rt v))"

text \<open>The effects of a call, in order: a request sent, a body read as text, a body
  decoded as JSON.\<close>

datatype event = is_Fetch: Fetch request | ReadText | ReadJson

record ClientConfig =
  clientId :: string
  clientSecret :: string

text \<open>The module-level variables of \<open>auth.ts\<close> and \<open>client.ts\<close>, and the effects so far.\<close>

record world =
  cachedToken :: jsvalue
  tokenExpiresAt :: jsnumber
  config :: "ClientConfig option"
  trace :: "event list"

definition initial_world :: world where
  "initial_world = \<lparr>cachedToken = JNull, tokenExpiresAt = Some 0, config = None, trace = []\<rparr>"

definition log :: "event \<Rightarrow> world \<Rightarrow> world" where
  "log e w = w\<lparr>trace := trace w @ [e]\<rparr>"

section \<open>auth.ts\<close>

definition TOKEN_URL :: string where
  "TOKEN_URL = ''https://auth.greenhouse.io/token''"

text \<open>The request \<open>getAccessToken\<close> passes to \<open>fetch\<close> (lines 25 to 36).\<close>

definition token_request :: "runtime \<Rightarrow> string \<Rightarrow> string \<Rightarrow> request" where
  "token_request rt cid secret =
     (let credentials = base64 rt (cid @ '':'' @ secret)
      in \<lparr>http_method = ''POST'', url = TOKEN_URL,
          headers = [(''Authorization'', ''Basic '' @ credentials),
                     (''Content-Type'', ''application/x-www-form-urlencoded'')],
          body = Some ''grant_type=client_credentials''\<rparr>)"

definition token_error_message :: "response \<Rightarrow> string" where
  "token_error_message res =
     ''Failed to obtain access token: '' @ show_nat (status res) @ '' '' @ statusText res
       @ '' - '' @ bodyText res"

definition getAccessToken ::
  "runtime \<Rightarrow> string \<Rightarrow> string \<Rightarrow> world \<Rightarrow> (error + jsvalue) \<times> world" where
  "getAccessToken rt cid secret w =
     (if ToBoolean (cachedToken w)
         \<and> num_lt (Some (Date_now rt)) (num_sub (tokenExpiresAt w) (Some 60000))
      then (Inr (cachedToken w), w)
      else
        (let req = token_request rt cid secret;
             w1 = log (Fetch req) w
         in (case fetch rt req of
               NetworkError \<Rightarrow> (Inl TypeError, w1)
             | Response res \<Rightarrow>
                 (if \<not> ok res then (Inl (Error (token_error_message res)), log ReadText w1)
                  else
                    (let w2 = log ReadJson w1
                     in (case json res of
                           None \<Rightarrow> (Inl SyntaxError, w2)
                         | Some data \<Rightarrow>
                             (case getProp data ''access_token'' of
                                Inl e \<Rightarrow> (Inl e, w2)
                              | Inr tok \<Rightarrow>
                                  (let w3 = w2\<lparr>cachedToken := tok\<rparr>
                                   in (case getProp data ''expires_at'' of
                                         Inl e \<Rightarrow> (Inl e, w3)
                                       | Inr ex \<Rightarrow>
                                           (case new_Date_getTime rt ex of
                                              Inl e \<Rightarrow> (Inl e, w3)
                                            | Inr t \<Rightarrow>
                                                (let w4 = w3\<lparr>tokenExpiresAt := t\<rparr>
                                                 in (Inr (cachedToken w4), w4))))))))))))"

section \<open>URLs and their search parameters\<close>

text \<open>The \<open>application/x-www-form-urlencoded\<close> serialiser of the URL standard, which
  \<open>url.searchParams.set\<close> runs to rewrite the query of its URL: a space becomes \<open>+\<close>,
  the bytes of \<open>*-._\<close>, digits and ASCII letters stand for themselves, and every other
  byte is \<open>%\<close> and two upper-case hexadecimal digits.\<close>

definition hex_digit :: "nat \<Rightarrow> char" where
  "hex_digit d = ''0123456789ABCDEF'' ! d"

definition form_safe :: "char \<Rightarrow> bool" where
  "form_safe c =
     (c \<in> set ''*-._0123456789ABCDEFGHIJKLMNOPQRSTUVWXYZabcdefghijklmnopqrstuvwxyz'')"

definition encode_byte :: "char \<Rightarrow> string" where
  "encode_byte c =
     (if c = CHR '' '' then ''+''
      else if form_safe c then [c]
      else [CHR ''%'', hex_digit (of_char c div 16), hex_digit (of_char c mod 16)])"

definition urlencode :: "string \<Rightarrow> string" where
  "urlencode s = concat (map encode_byte s)"

definition form_serialize :: "(string \<times> string) list \<Rightarrow> string" where
  "form_serialize l = join ''&'' (map (\<lambda>(name, v). urlencode name @ ''='' @ urlencode v) l)"

text \<open>The parser of the same format, which \<open>new URL\<close> runs on the query to fill
  \<open>url.searchParams\<close>: the query is cut at every \<open>&\<close>, empty pieces are skipped, a piece
  is cut at its first \<open>=\<close>, and in both halves \<open>+\<close> is a space and \<open>%\<close> with two
  hexadecimal digits is a byte.\<close>

definition plus_to_space :: "char \<Rightarrow> char" where
  "plus_to_space c = (if c = CHR ''+'' then CHR '' '' else c)"

definition hex_value :: "char \<Rightarrow> nat option" where
  "hex_value c =
     (let n = (of_char c :: nat)
      in if 48 \<le> n \<and> n \<le> 57 then Some (n - 48)
         else if 65 \<le> n \<and> n \<le> 70 then Some (n - 55)
         else if 97 \<le> n \<and> n \<le> 102 then Some (n - 87)
         else None)"

fun percent_decode :: "string \<Rightarrow> string" where
  "percent_decode (c # a # b # rest) =
     (if c = CHR ''%''
      then (case hex_value a of
              None \<Rightarrow> c # percent_decode (a # b # rest)
            | Some h \<Rightarrow>
                (case hex_value b of
                   None \<Rightarrow> c # percent_decode (a # b # rest)
                 | Some l \<Rightarrow> char_of (16 * h + l) # percent_decode rest))
      else c # percent_decode (a # b # rest))"
| "percent_decode s = s"

fun split_on :: "char \<Rightarrow> string \<Rightarrow> string list" where
  "split_on sep [] = [[]]"
| "split_on sep (c # cs) =
     (if c = sep then [] # split_on sep cs
      else (case split_on sep cs of
              [] \<Rightarrow> [[c]]
            | p # ps \<Rightarrow> (c # p) # ps))"

definition form_decode :: "string \<Rightarrow> string" where
  "form_decode s = percent_decode (map plus_to_space s)"

definition parse_pair :: "string \<Rightarrow> string \<times> string" where
  "parse_pair piece =
     (let name = takeWhile (\<lambda>c. c \<noteq> CHR ''='') piece;
          v = drop 1 (dropWhile (\<lambda>c. c \<noteq> CHR ''='') piece)
      in (form_decode name, form_decode v))"

definition form_parse :: "string \<Rightarrow> (string \<times> string) list" where
  "form_parse q = map parse_pair (filter (\<lambda>piece. piece \<noteq> []) (split_on CHR ''&'' q))"

text \<open>\<open>searchParams.set(name, value)\<close>: the first pair of that name takes the value and
  the other pairs of that name go; with no such pair, the pair is appended. The URL's
  query becomes the serialised list (no query when that is empty).\<close>

fun set_pair :: "(string \<times> string) list \<Rightarrow> string \<Rightarrow> string \<Rightarrow> (string \<times> string) list" where
  "set_pair [] name v = [(name, v)]"
| "set_pair (p # l) name v =
     (if fst p = name then (name, v) # filter (\<lambda>q. fst q \<noteq> name) l
      else p # set_pair l name v)"

definition searchParams_set :: "URL \<Rightarrow> string \<Rightarrow> string \<Rightarrow> URL" where
  "searchParams_set u name v =
     (let l = set_pair (searchParams u) name v;
          s = form_serialize l
      in u\<lparr>searchParams := l, query := (if s = [] then None else Some s)\<rparr>)"

text \<open>\<open>searchParams.get(name)\<close>: the value of the first pair of that name, or \<open>null\<close>.\<close>

definition searchParams_get :: "URL \<Rightarrow> string \<Rightarrow> string option" where
  "searchParams_get u name = map_of (searchParams u) name"

definition URL_toString :: "URL \<Rightarrow> string" where
  "URL_toString u =
     origin_path u @ (case query u of None \<Rightarrow> [] | Some q \<Rightarrow> CHR ''?'' # q) @ hash u"

section \<open>client.ts\<close>

definition BASE_URL :: string where
  "BASE_URL = ''https://harvest.greenhouse.io/v3''"

definition configure :: "string \<Rightarrow> string \<Rightarrow> world \<Rightarrow> world" where
  "configure cid secret w = w\<lparr>config := Some \<lparr>clientId = cid, clientSecret = secret\<rparr>\<rparr>"

definition getConfig :: "world \<Rightarrow> error + ClientConfig" where
  "getConfig w =
     (case config w of
        None \<Rightarrow> Inl (Error ''Greenhouse client not configured. Set GREENHOUSE_CLIENT_ID and GREENHOUSE_CLIENT_SECRET.'')
      | Some c \<Rightarrow> Inr c)"

text \<open>A parameter bag is the list \<open>Object.entries(params)\<close> walks: the own properties
  in order, each key once.\<close>

type_synonym bag = "(string \<times> scalar) list"

definition buildUrl_step :: "runtime \<Rightarrow> string \<times> scalar \<Rightarrow> URL \<Rightarrow> URL" where
  "buildUrl_step rt entry u =
     (case entry of (key, v) \<Rightarrow>
        if v \<noteq> SUndefined \<and> v \<noteq> SStr [] then searchParams_set u key (String rt v) else u)"

definition buildUrl :: "runtime \<Rightarrow> string \<Rightarrow> bag option \<Rightarrow> error + string" where
  "buildUrl rt path params =
     (case URL_new rt (BASE_URL @ path) of
        None \<Rightarrow> Inl TypeError
      | Some u \<Rightarrow>
          Inr (URL_toString
                 (case params of None \<Rightarrow> u | Some ps \<Rightarrow> fold (buildUrl_step rt) ps u)))"

text \<open>The regular expression \<open><([^>]+)>;\s*rel="next"\<close>, matched at the start of a
  string. Each step of it has one way to succeed: the group is the run of characters
  other than \<open>>\<close> after the \<open><\<close> (a shorter group is followed by a character that is
  not \<open>>\<close>), and the white space is the whole run (a shorter one is followed by a space,
  not by \<open>r\<close>). A header value is a byte string, so \<open>\s\<close> is tab, line feed, vertical
  tab, form feed, carriage return, space and the no-break space.\<close>

definition is_space :: "char \<Rightarrow> bool" where
  "is_space c = (c \<in> {CHR 0x09, CHR 0x0A, CHR 0x0B, CHR 0x0C, CHR 0x0D, CHR 0x20, CHR 0xA0})"

definition not_gt :: "char \<Rightarrow> bool" where
  "not_gt c = (c \<noteq> CHR ''>'')"

fun match_next :: "string \<Rightarrow> string option" where
  "match_next [] = None"
| "match_next (c # rest) =
     (if c = CHR ''<''
      then (let g = takeWhile not_gt rest;
                after = dropWhile not_gt rest
            in if g \<noteq> [] \<and> take 2 after = ''>;''
                    \<and> take 10 (dropWhile is_space (drop 2 after)) = ''rel=\"next\"''
               then Some g else None)
      else None)"

text \<open>\<open>header.match(re)\<close> tries every start from the left and keeps the first match.\<close>

fun regex_search :: "string \<Rightarrow> string option" where
  "regex_search [] = None"
| "regex_search (c # cs) =
     (case match_next (c # cs) of Some g \<Rightarrow> Some g | None \<Rightarrow> regex_search cs)"

definition parseLinkHeader :: "string option \<Rightarrow> string option" where
  "parseLinkHeader header =
     (case header of
        None \<Rightarrow> None
      | Some h \<Rightarrow> if h = [] then None else regex_search h)"

record ApiResponse =
  data :: jsvalue
  nextCursor :: "string option"

definition api_error_message :: "response \<Rightarrow> string" where
  "api_error_message res =
     ''Greenhouse API error: '' @ show_nat (status res) @ '' '' @ statusText res
       @ '' - '' @ bodyText res"

text \<open>The request \<open>apiGet\<close> and \<open>apiGetWithCursor\<close> pass to \<open>fetch\<close>. The token goes
  into a template literal, which throws for a token that has no primitive value;
  then nothing is sent.\<close>

definition get_request :: "runtime \<Rightarrow> string \<Rightarrow> jsvalue \<Rightarrow> error + request" where
  "get_request rt u token =
     (case ToString rt token of
        Inl e \<Rightarrow> Inl e
      | Inr t \<Rightarrow>
          Inr \<lparr>http_method = ''GET'', url = u,
               headers = [(''Authorization'', ''Bearer '' @ t),
                          (''Accept'', ''application/json'')],
               body = None\<rparr>)"

text \<open>\<open>apiGet\<close> and \<open>apiGetWithCursor\<close> run the same statements once the request is
  sent (lines 71 to 87 and 149 to 164): the status test, the JSON decoding, the link
  header, the cursor of the next URL.\<close>

definition read_page ::
  "runtime \<Rightarrow> reply \<Rightarrow> world \<Rightarrow> (error + ApiResponse) \<times> world" where
  "read_page rt r w =
     (case r of
        NetworkError \<Rightarrow> (Inl TypeError, w)
      | Response res \<Rightarrow>
          (if \<not> ok res then (Inl (Error (api_error_message res)), log ReadText w)
           else
             (let w1 = log ReadJson w
              in (case json res of
                    None \<Rightarrow> (Inl SyntaxError, w1)
                  | Some d \<Rightarrow>
                      (case parseLinkHeader (linkHeader res) of
                         None \<Rightarrow> (Inr \<lparr>data = d, nextCursor = None\<rparr>, w1)
                       | Some nextUrl \<Rightarrow>
                           (if nextUrl = [] then (Inr \<lparr>data = d, nextCursor = None\<rparr>, w1)
                            else
                              (case URL_new rt nextUrl of
                                 None \<Rightarrow> (Inl TypeError, w1)
                               | Some parsed \<Rightarrow>
                                   (Inr \<lparr>data = d,
                                         nextCursor = searchParams_get parsed ''cursor''\<rparr>,
                                    w1))))))))"

definition apiGet ::
  "runtime \<Rightarrow> string \<Rightarrow> bag option \<Rightarrow> world \<Rightarrow> (error + ApiResponse) \<times> world" where
  "apiGet rt path params w =
     (case getConfig w of
        Inl e \<Rightarrow> (Inl e, w)
      | Inr c \<Rightarrow>
          (case getAccessToken rt (clientId c) (clientSecret c) w of
             (Inl e, w1) \<Rightarrow> (Inl e, w1)
           | (Inr token, w1) \<Rightarrow>
               (case buildUrl rt path params of
                  Inl e \<Rightarrow> (Inl e, w1)
                | Inr u \<Rightarrow>
                    (case get_request rt u token of
                       Inl e \<Rightarrow> (Inl e, w1)
                     | Inr req \<Rightarrow> read_page rt (fetch rt req) (log (Fetch req) w1)))))"

text \<open>The request \<open>apiPost\<close> passes to \<open>fetch\<close>:
  \<open>body ? JSON.stringify(body) : undefined\<close> sends no body for a body that is not
  there.\<close>

definition post_request ::
  "runtime \<Rightarrow> string \<Rightarrow> jsvalue \<Rightarrow> jsvalue \<Rightarrow> error + request" where
  "post_request rt path b token =
     (case ToString rt token of
        Inl e \<Rightarrow> Inl e
      | Inr t \<Rightarrow>
          Inr \<lparr>http_method = ''POST'', url = BASE_URL @ path,
               headers = [(''Authorization'', ''Bearer '' @ t),
                          (''Content-Type'', ''application/json''),
                          (''Accept'', ''application/json'')],
               body = (if ToBoolean b then Some (JSON_stringify rt b) else None)\<rparr>)"

definition apiPost ::
  "runtime \<Rightarrow> string \<Rightarrow> jsvalue \<Rightarrow> world \<Rightarrow> (error + ApiResponse) \<times> world" where
  "apiPost rt path b w =
     (case getConfig w of
        Inl e \<Rightarrow> (Inl e, w)
      | Inr c \<Rightarrow>
          (case getAccessToken rt (clientId c) (clientSecret c) w of
             (Inl e, w1) \<Rightarrow> (Inl e, w1)
           | (Inr token, w1) \<Rightarrow>
               (case post_request rt path b token of
                  Inl e \<Rightarrow> (Inl e, w1)
                | Inr req \<Rightarrow>
                    (let w2 = log (Fetch req) w1
                     in (case fetch rt req of
                           NetworkError \<Rightarrow> (Inl TypeError, w2)
                         | Response res \<Rightarrow>
                             (if \<not> ok res
                              then (Inl (Error (api_error_message res)), log ReadText w2)
                              else if status res = 204
                              then (Inr \<lparr>data = JObj [], nextCursor = None\<rparr>, w2)
                              else
                                (case json res of
                                   None \<Rightarrow> (Inl SyntaxError, log ReadJson w2)
                                 | Some d \<Rightarrow>
                                     (Inr \<lparr>data = d, nextCursor = None\<rparr>,
                                      log ReadJson w2))))))))"

text \<open>\<open>url.searchParams.set("cursor", cursor); url.toString()\<close> of \<open>apiGetWithCursor\<close>.\<close>

definition cursor_url :: "runtime \<Rightarrow> URL \<Rightarrow> scalar \<Rightarrow> string" where
  "cursor_url rt u0 cursor =
     URL_toString (searchParams_set u0 ''cursor'' (String rt cursor))"

definition apiGetWithCursor ::
  "runtime \<Rightarrow> string \<Rightarrow> scalar \<Rightarrow> scalar \<Rightarrow> world \<Rightarrow> (error + ApiResponse) \<times> world" where
  "apiGetWithCursor rt path cursor perPage w =
     (case getConfig w of
        Inl e \<Rightarrow> (Inl e, w)
      | Inr c \<Rightarrow>
          (case getAccessToken rt (clientId c) (clientSecret c) w of
             (Inl e, w1) \<Rightarrow> (Inl e, w1)
           | (Inr token, w1) \<Rightarrow>
               (case URL_new rt (BASE_URL @ path) of
                  None \<Rightarrow> (Inl TypeError, w1)
                | Some u0 \<Rightarrow>
                    (case get_request rt (cursor_url rt u0 cursor) token of
                       Inl e \<Rightarrow> (Inl e, w1)
                     | Inr req \<Rightarrow> read_page rt (fetch rt req) (log (Fetch req) w1)))))"

section \<open>index.ts\<close>

definition listEndpoint ::
  "runtime \<Rightarrow> string \<Rightarrow> bag \<Rightarrow> scalar \<Rightarrow> world \<Rightarrow> (error + ApiResponse) \<times> world" where
  "listEndpoint rt path params cursor w =
     (if truthy cursor then apiGetWithCursor rt path cursor SUndefined w
      else apiGet rt path (Some params) w)"

text \<open>The handler every list tool registers:
  \<open>const { cursor, ...rest } = params; listEndpoint(path, rest, cursor)\<close>.\<close>

definition tool_cursor :: "bag \<Rightarrow> scalar" where
  "tool_cursor params = (case map_of params ''cursor'' of None \<Rightarrow> SUndefined | Some v \<Rightarrow> v)"

definition tool_rest :: "bag \<Rightarrow> bag" where
  "tool_rest params = filter (\<lambda>entry. fst entry \<noteq> ''cursor'') params"

definition list_tool ::
  "runtime \<Rightarrow> string \<Rightarrow> bag \<Rightarrow> world \<Rightarrow> (error + ApiResponse) \<times> world" where
  "list_tool rt path params w =
     listEndpoint rt path (tool_rest params) (tool_cursor params) w"

section \<open>The words of the specification\<close>

text \<open>The entries of a filter bag that are to be sent: those whose value is defined
  and is not the empty string, the value as a string.\<close>

definition sent_entries :: "runtime \<Rightarrow> bag \<Rightarrow> (string \<times> string) list" where
  "sent_entries rt ps =
     map (\<lambda>(key, v). (key, String rt v))
       (filter (\<lambda>(key, v). v \<noteq> SUndefined \<and> v \<noteq> SStr []) ps)"

text \<open>A URL with the pairs \<open>l\<close> as its query string.\<close>

definition with_query :: "URL \<Rightarrow> (string \<times> string) list \<Rightarrow> string" where
  "with_query u0 l =
     origin_path u0 @ (if l = [] then [] else CHR ''?'' # form_serialize l) @ hash u0"

text \<open>A link header \<open>h\<close> has an entry tagged \<open>rel="next"\<close> with the URL \<open>u\<close>: it reads
  \<open><u>;\<close>, white space, \<open>rel="next"\<close> somewhere.\<close>

definition next_entry :: "string \<Rightarrow> string \<Rightarrow> bool" where
  "next_entry h u =
     (\<exists>before ws rest.
        h = before @ ''<'' @ u @ ''>;'' @ ws @ ''rel=\"next\"'' @ rest
        \<and> u \<noteq> [] \<and> CHR ''>'' \<notin> set u \<and> (\<forall>c \<in> set ws. is_space c))"

text \<open>A cached token is fresh: there is one (a value that \<open>cachedToken && ...\<close>
  takes, so neither \<open>null\<close> nor the empty string), and the clock is more than 60
  seconds before its recorded expiry.\<close>

definition fresh :: "runtime \<Rightarrow> world \<Rightarrow> bool" where
  "fresh rt w =
     (ToBoolean (cachedToken w)
      \<and> (case tokenExpiresAt w of None \<Rightarrow> False | Some e \<Rightarrow> 60000 < e - Date_now rt))"

text \<open>A decoded token body is well formed: an object with the strings \<open>access_token\<close>
  and \<open>expires_at\<close>, the latter a date.\<close>

definition well_formed_token :: "runtime \<Rightarrow> jsvalue \<Rightarrow> bool" where
  "well_formed_token rt d =
     (case d of
        JObj kvs \<Rightarrow>
          (case (map_of (rev kvs) ''access_token'', map_of (rev kvs) ''expires_at'') of
             (Some (JStr a), Some (JStr e)) \<Rightarrow> Date_getTime rt (JStr e) \<noteq> None
           | _ \<Rightarrow> False)
      | _ \<Rightarrow> False)"

section \<open>A run time for the examples\<close>

text \<open>A URL parser for the plain \<open>https\<close> URLs of the examples, a \<open>Date\<close> that knows
  one time stamp, a number notation that knows \<open>1e21\<close> and \<open>0.5\<close>, and a network that
  answers the token endpoint with one reply and every other request with another.\<close>

definition simple_URL_new :: "string \<Rightarrow> URL option" where
  "simple_URL_new s =
     (if take 8 s = ''https://'' \<and> 8 < length s
      then (let before_hash = takeWhile (\<lambda>c. c \<noteq> CHR ''#'') s;
                q = dropWhile (\<lambda>c. c \<noteq> CHR ''?'') before_hash
            in Some \<lparr>origin_path = takeWhile (\<lambda>c. c \<noteq> CHR ''?'') before_hash,
                     query = (if q = [] then None else Some (drop 1 q)),
                     searchParams = form_parse (drop 1 q),
                     hash = dropWhile (\<lambda>c. c \<noteq> CHR ''#'') s\<rparr>)
      else None)"

definition simple_Date_getTime :: "jsvalue \<Rightarrow> jsnumber" where
  "simple_Date_getTime v =
     (case v of
        JStr s \<Rightarrow> if s = ''2030-01-01T00:00:00.000Z'' then Some 1893456000000 else None
      | JNum (Finite q) \<Rightarrow>
          (let t = (if 0 \<le> q then \<lfloor>q\<rfloor> else \<lceil>q\<rceil>)
           in if \<bar>t\<bar> \<le> 8640000000000000 then Some t else None)
      | JNull \<Rightarrow> Some 0
      | JBool b \<Rightarrow> Some (if b then 1 else 0)
      | _ \<Rightarrow> None)"

definition sample_runtime :: "reply \<Rightarrow> reply \<Rightarrow> int \<Rightarrow> runtime" where
  "sample_runtime token_reply api_reply now =
     \<lparr>fetch = (\<lambda>req. if url req = TOKEN_URL then token_reply else api_reply),
      Date_now = now,
      Date_getTime = simple_Date_getTime,
      base64 = (\<lambda>s. if s = ''cid:secret'' then ''Y2lkOnNlY3JldA=='' else []),
      URL_new = simple_URL_new,
      JSON_stringify = (\<lambda>v. if v = JObj [(''rejection_reason_id'', JNum (Finite 678))]
                             then ''{\"rejection_reason_id\":678}'' else []),
      print_number = (\<lambda>q. if q = 1000000000000000000000 then ''1e+21''
                           else if q = 1 / 2 then ''0.5'' else [])\<rparr>"

definition json_reply :: "nat \<Rightarrow> string \<Rightarrow> string \<Rightarrow> jsvalue option \<Rightarrow> string option \<Rightarrow> reply" where
  "json_reply code reason raw decoded link =
     Response \<lparr>status = code, statusText = reason, bodyText = raw, json = decoded,
               linkHeader = link\<rparr>"

definition token_reply :: reply where
  "token_reply =
     json_reply 200 ''OK''
       ''{\"token_type\":\"Bearer\",\"access_token\":\"tok123\",\"expires_at\":\"2030-01-01T00:00:00.000Z\"}''
       (Some (JObj [(''token_type'', JStr ''Bearer''), (''access_token'', JStr ''tok123''),
                    (''expires_at'', JStr ''2030-01-01T00:00:00.000Z'')]))
       None"

text \<open>The process after \<open>configure\<close>, with a token in the cache that expires at \<open>e\<close>.\<close>

definition cached_world :: "int \<Rightarrow> world" where
  "cached_world e =
     (configure ''cid'' ''secret'' initial_world)
       \<lparr>cachedToken := JStr ''old'', tokenExpiresAt := Some e\<rparr>"


section \<open>Search parameters: parsing undoes serialising\<close>

lemma hex_value_digit: "d < 16 \<Longrightarrow> hex_value (hex_digit d) = Some d"
proof -
  assume "d < 16"
  then have "d \<in> {0,1,2,3,4,5,6,7,8,9,10,11,12,13,14,15}" by simp arith
  then show ?thesis
    by (auto simp: hex_value_def hex_digit_def)
qed

lemma hex_digit_plain: "d < 16 \<Longrightarrow> plus_to_space (hex_digit d) = hex_digit d \<and> hex_digit d \<noteq> CHR ''&'' \<and> hex_digit d \<noteq> CHR ''=''"
proof -
  assume "d < 16"
  then have "d \<in> {0,1,2,3,4,5,6,7,8,9,10,11,12,13,14,15}" by simp arith
  then show ?thesis
    by (auto simp: plus_to_space_def hex_digit_def)
qed

lemma char_of_nibbles: "char_of (16 * (of_char c div 16) + (of_char c mod 16 :: nat)) = c"
  by simp

lemma percent_decode_plain: "c \<noteq> CHR ''%'' \<Longrightarrow> percent_decode (c # s) = c # percent_decode s"
  by (cases s rule: percent_decode.cases) (auto)


lemma encode_byte_decode:
  "percent_decode (map plus_to_space (encode_byte c) @ s) = c # percent_decode s"
proof -
  have lt: "(of_char c :: nat) div 16 < 16" "(of_char c :: nat) mod 16 < 16"
    by (simp_all add: less_mult_imp_div_less)
  consider "c = CHR '' ''" | "c \<noteq> CHR '' ''" "form_safe c" | "c \<noteq> CHR '' ''" "\<not> form_safe c"
    by blast
  then show ?thesis
  proof cases
    case 1
    then show ?thesis
      by (simp add: encode_byte_def plus_to_space_def percent_decode_plain)
  next
    case 2
    then have "c \<noteq> CHR ''%''" "c \<noteq> CHR ''+''"
      by (auto simp: form_safe_def)
    with 2 show ?thesis
      by (simp add: encode_byte_def plus_to_space_def percent_decode_plain)
  next
    case 3
    have pct: "plus_to_space CHR ''%'' = CHR ''%''"
      by (simp add: plus_to_space_def)
    from 3 show ?thesis
      by (simp add: encode_byte_def pct hex_digit_plain [OF lt(1)] hex_digit_plain [OF lt(2)]
            hex_value_digit [OF lt(1)] hex_value_digit [OF lt(2)])
  qed
qed

lemma form_decode_urlencode: "form_decode (urlencode s) = s"
proof -
  have "percent_decode (map plus_to_space (urlencode s) @ t) = s @ percent_decode t" for t
  proof (induction s)
    case Nil
    then show ?case by (simp add: urlencode_def)
  next
    case (Cons c s)
    have "percent_decode (map plus_to_space (urlencode (c # s)) @ t)
            = percent_decode (map plus_to_space (encode_byte c) @ (map plus_to_space (urlencode s) @ t))"
      by (simp add: urlencode_def)
    also have "\<dots> = c # percent_decode (map plus_to_space (urlencode s) @ t)"
      by (rule encode_byte_decode)
    finally show ?case using Cons by simp
  qed
  from this [of "[]"] show ?thesis by (simp add: form_decode_def)
qed

lemma encode_byte_no_sep: "CHR ''&'' \<notin> set (encode_byte c) \<and> CHR ''='' \<notin> set (encode_byte c)"
proof -
  have lt: "(of_char c :: nat) div 16 < 16" "(of_char c :: nat) mod 16 < 16"
    by (simp_all add: less_mult_imp_div_less)
  show ?thesis
    using hex_digit_plain [OF lt(1)] hex_digit_plain [OF lt(2)]
    by (auto simp: encode_byte_def form_safe_def)
qed

lemma urlencode_no_sep: "CHR ''&'' \<notin> set (urlencode s) \<and> CHR ''='' \<notin> set (urlencode s)"
  using encode_byte_no_sep by (auto simp: urlencode_def)


lemma split_on_single: "sep \<notin> set p \<Longrightarrow> split_on sep p = [p]"
  by (induction p) auto

lemma split_on_append: "sep \<notin> set p \<Longrightarrow> split_on sep (p @ sep # s) = p # split_on sep s"
  by (induction p) auto

lemma split_on_join:
  "ps \<noteq> [] \<Longrightarrow> \<forall>p \<in> set ps. sep \<notin> set p \<Longrightarrow> split_on sep (join [sep] ps) = ps"
proof (induction "[sep]" ps rule: join.induct)
  case 1
  then show ?case by simp
next
  case (2 x)
  then show ?case by (simp add: split_on_single)
next
  case (3 x y ys)
  then show ?case by (simp add: split_on_append)
qed

lemma takeWhile_stop: "\<forall>x \<in> set xs. P x \<Longrightarrow> \<not> P y \<Longrightarrow> takeWhile P (xs @ y # ys) = xs"
  by (induction xs) auto

lemma dropWhile_stop: "\<forall>x \<in> set xs. P x \<Longrightarrow> \<not> P y \<Longrightarrow> dropWhile P (xs @ y # ys) = y # ys"
  by (induction xs) auto

lemma parse_pair_serialized: "parse_pair (urlencode name @ CHR ''='' # urlencode v) = (name, v)"
proof -
  have "\<forall>c \<in> set (urlencode name). c \<noteq> CHR ''=''"
    using urlencode_no_sep by blast
  then have "takeWhile (\<lambda>c. c \<noteq> CHR ''='') (urlencode name @ CHR ''='' # urlencode v) = urlencode name"
    and "dropWhile (\<lambda>c. c \<noteq> CHR ''='') (urlencode name @ CHR ''='' # urlencode v) = CHR ''='' # urlencode v"
    by (simp_all add: takeWhile_stop dropWhile_stop)
  then show ?thesis
    by (simp add: parse_pair_def form_decode_urlencode)
qed

lemma form_parse_serialize: "form_parse (form_serialize l) = l"
proof (cases "l = []")
  case True
  then show ?thesis by (simp add: form_parse_def form_serialize_def)
next
  case False
  define ps where "ps = map (\<lambda>(name, v). urlencode name @ CHR ''='' # urlencode v) l"
  have ser: "form_serialize l = join [CHR ''&''] ps"
    by (simp add: form_serialize_def ps_def)
  have nonempty: "ps \<noteq> []" using False by (simp add: ps_def)
  have nosep: "\<forall>p \<in> set ps. CHR ''&'' \<notin> set p"
    using urlencode_no_sep by (auto simp: ps_def)
  have split: "split_on CHR ''&'' (form_serialize l) = ps"
    unfolding ser by (rule split_on_join [OF nonempty nosep])
  have keep: "filter (\<lambda>piece. piece \<noteq> []) ps = ps"
    unfolding ps_def by (induction l) auto
  have parsed: "map parse_pair ps = l"
    unfolding ps_def by (induction l) (auto simp: parse_pair_serialized)
  show ?thesis
    unfolding form_parse_def split keep by (rule parsed)
qed

lemma form_serialize_empty: "form_serialize l = [] \<longleftrightarrow> l = []"
proof
  assume "form_serialize l = []"
  then have "form_parse (form_serialize l) = []" by (simp add: form_parse_def)
  then show "l = []" by (simp add: form_parse_serialize)
next
  assume "l = []"
  then show "form_serialize l = []" by (simp add: form_serialize_def)
qed


lemma set_pair_fresh: "name \<notin> fst ` set l \<Longrightarrow> set_pair l name v = l @ [(name, v)]"
  by (induction l) auto

lemma sent_entries_Cons:
  "sent_entries rt ((key, v) # ps) =
     (if v \<noteq> SUndefined \<and> v \<noteq> SStr [] then (key, String rt v) # sent_entries rt ps
      else sent_entries rt ps)"
  by (simp add: sent_entries_def)

lemma sent_entries_keys: "fst ` set (sent_entries rt ps) \<subseteq> fst ` set ps"
  by (force simp: sent_entries_def)

lemma fold_buildUrl_step:
  "distinct (map fst ps) \<Longrightarrow> fst ` set ps \<inter> fst ` set (searchParams u) = {} \<Longrightarrow>
   fold (buildUrl_step rt) ps u =
     (if sent_entries rt ps = [] then u
      else u\<lparr>searchParams := searchParams u @ sent_entries rt ps,
             query := Some (form_serialize (searchParams u @ sent_entries rt ps))\<rparr>)"
proof (induction ps arbitrary: u)
  case Nil
  then show ?case by (simp add: sent_entries_def)
next
  case (Cons p ps)
  obtain key v where p: "p = (key, v)" by (cases p)
  show ?case
  proof (cases "v \<noteq> SUndefined \<and> v \<noteq> SStr []")
    case False
    then have step: "buildUrl_step rt p u = u" by (auto simp: buildUrl_step_def p)
    have se: "sent_entries rt (p # ps) = sent_entries rt ps"
      using False by (auto simp: p sent_entries_Cons)
    from Cons.prems have "distinct (map fst ps)" "fst ` set ps \<inter> fst ` set (searchParams u) = {}"
      by auto
    from Cons.IH [OF this] show ?thesis by (simp add: step se)
  next
    case True
    let ?l = "searchParams u @ [(key, String rt v)]"
    let ?u = "u\<lparr>searchParams := ?l, query := Some (form_serialize ?l)\<rparr>"
    have fresh: "key \<notin> fst ` set (searchParams u)"
      using Cons.prems by (auto simp: p)
    have "form_serialize ?l \<noteq> []"
      by (simp add: form_serialize_empty)
    then have step: "buildUrl_step rt p u = ?u"
      using True by (simp add: buildUrl_step_def p searchParams_set_def set_pair_fresh [OF fresh] Let_def)
    have se: "sent_entries rt (p # ps) = (key, String rt v) # sent_entries rt ps"
      using True by (simp add: p sent_entries_Cons)
    have d: "distinct (map fst ps)" using Cons.prems by simp
    have disj: "fst ` set ps \<inter> fst ` set (searchParams ?u) = {}"
      using Cons.prems by (auto simp: p)
    show ?thesis
      using Cons.IH [OF d disj] by (simp add: step se)
  qed
qed


lemma buildUrl_query:
  assumes "URL_new rt (BASE_URL @ path) = Some u0" and "searchParams u0 = []"
    and "query u0 = None" and "distinct (map fst ps)"
  shows "buildUrl rt path (Some ps) =
           Inr (origin_path u0
                  @ (if sent_entries rt ps = [] then [] else CHR ''?'' # form_serialize (sent_entries rt ps))
                  @ hash u0)"
proof -
  have "fst ` set ps \<inter> fst ` set (searchParams u0) = {}"
    using assms(2) by simp
  from fold_buildUrl_step [OF assms(4) this] show ?thesis
    using assms(1-3) by (simp add: buildUrl_def URL_toString_def)
qed

lemma match_next_sound:
  assumes "match_next s = Some g"
  shows "\<exists>ws rest. s = ''<'' @ g @ ''>;'' @ ws @ ''rel=\"next\"'' @ rest
           \<and> g \<noteq> [] \<and> CHR ''>'' \<notin> set g \<and> (\<forall>c \<in> set ws. is_space c)"
proof (cases s)
  case Nil
  with assms show ?thesis by simp
next
  case (Cons c r)
  define after where "after = dropWhile not_gt r"
  define r2 where "r2 = drop 2 after"
  from assms Cons have c: "c = CHR ''<''"
    and g: "g = takeWhile not_gt r" and ne: "g \<noteq> []"
    and a2: "take 2 after = ''>;''"
    and lit: "take 10 (dropWhile is_space r2) = ''rel=\"next\"''"
    by (auto simp: Let_def after_def r2_def split: if_splits)
  have r: "r = g @ after"
    by (simp add: g after_def)
  have "after = take 2 after @ r2"
    by (simp add: r2_def)
  then have after: "after = ''>;'' @ r2"
    using a2 by simp
  have "r2 = takeWhile is_space r2 @ dropWhile is_space r2"
    by simp
  moreover have "dropWhile is_space r2 = take 10 (dropWhile is_space r2) @ drop 10 (dropWhile is_space r2)"
    by simp
  ultimately have r2: "r2 = takeWhile is_space r2 @ ''rel=\"next\"'' @ drop 10 (dropWhile is_space r2)"
    using lit by metis
  have nogt: "CHR ''>'' \<notin> set g"
    using set_takeWhileD [of "CHR ''>''" not_gt r] by (auto simp: g not_gt_def)
  have sp: "\<forall>c \<in> set (takeWhile is_space r2). is_space c"
    using set_takeWhileD by metis
  have "s = ''<'' @ g @ ''>;'' @ takeWhile is_space r2 @ ''rel=\"next\"''
              @ drop 10 (dropWhile is_space r2)"
    using Cons c r after r2 by simp
  with ne nogt sp show ?thesis by blast
qed

lemma match_next_complete:
  assumes "g \<noteq> []" and "CHR ''>'' \<notin> set g" and "\<forall>c \<in> set ws. is_space c"
  shows "match_next (''<'' @ g @ ''>;'' @ ws @ ''rel=\"next\"'' @ rest) = Some g"
proof -
  have all: "\<forall>c \<in> set g. not_gt c"
    using assms(2) by (auto simp: not_gt_def)
  have stop: "\<not> not_gt CHR ''>''"
    by (simp add: not_gt_def)
  have tw: "takeWhile not_gt (g @ CHR ''>'' # t) = g" for t
    using takeWhile_stop [OF all stop] .
  have dw: "dropWhile not_gt (g @ CHR ''>'' # t) = CHR ''>'' # t" for t
    using dropWhile_stop [OF all stop] .
  have "\<not> is_space CHR ''r''"
    by (simp add: is_space_def)
  from dropWhile_stop [OF assms(3) this]
  have sp: "dropWhile is_space (ws @ CHR ''r'' # t) = CHR ''r'' # t" for t .
  show ?thesis
    using assms(1) by (simp add: tw dw sp)
qed

lemma regex_search_sound: "regex_search h = Some u \<Longrightarrow> next_entry h u"
proof (induction h)
  case Nil
  then show ?case by simp
next
  case (Cons c cs)
  show ?case
  proof (cases "match_next (c # cs)")
    case (Some g)
    with Cons.prems have "g = u" by simp
    with match_next_sound [OF Some] show ?thesis
      unfolding next_entry_def by (metis append_Nil)
  next
    case None
    with Cons.prems have "regex_search cs = Some u" by simp
    from Cons.IH [OF this] obtain before ws rest where
      "cs = before @ ''<'' @ u @ ''>;'' @ ws @ ''rel=\"next\"'' @ rest"
      "u \<noteq> []" "CHR ''>'' \<notin> set u" "\<forall>c \<in> set ws. is_space c"
      unfolding next_entry_def by blast
    then have "c # cs = (c # before) @ ''<'' @ u @ ''>;'' @ ws @ ''rel=\"next\"'' @ rest"
      by simp
    with \<open>u \<noteq> []\<close> \<open>CHR ''>'' \<notin> set u\<close> \<open>\<forall>c \<in> set ws. is_space c\<close> show ?thesis
      unfolding next_entry_def by blast
  qed
qed

lemma regex_search_append:
  "match_next s = Some g \<Longrightarrow> regex_search (before @ s) \<noteq> None"
proof (induction before)
  case Nil
  then show ?case by (cases s) auto
next
  case (Cons c before)
  then show ?case by (auto split: option.splits)
qed

lemma regex_search_complete: "next_entry h u \<Longrightarrow> regex_search h \<noteq> None"
proof -
  assume "next_entry h u"
  then obtain before ws rest where
    h: "h = before @ (''<'' @ u @ ''>;'' @ ws @ ''rel=\"next\"'' @ rest)"
    and "u \<noteq> []" "CHR ''>'' \<notin> set u" "\<forall>c \<in> set ws. is_space c"
    unfolding next_entry_def by blast
  from match_next_complete [OF this(2-4)] regex_search_append show ?thesis
    unfolding h by blast
qed

lemma parseLinkHeader_None_iff:
  "parseLinkHeader header = None \<longleftrightarrow> (header = None \<or> (\<forall>u. \<not> next_entry (the header) u))"
proof (cases header)
  case None
  then show ?thesis by (simp add: parseLinkHeader_def)
next
  case (Some h)
  have "regex_search h = None \<longleftrightarrow> (\<forall>u. \<not> next_entry h u)"
    using regex_search_sound regex_search_complete by (metis option.exhaust)
  moreover have "h = [] \<Longrightarrow> regex_search h = None" by simp
  ultimately show ?thesis using Some by (auto simp: parseLinkHeader_def)
qed

lemma parseLinkHeader_Some: "parseLinkHeader header = Some u \<Longrightarrow> \<exists>h. header = Some h \<and> next_entry h u \<and> u \<noteq> []"
  by (auto simp: parseLinkHeader_def next_entry_def split: option.splits if_splits dest: regex_search_sound)


section \<open>The claims\<close>

subsection \<open>The token manager\<close>

lemma fresh_iff:
  "fresh rt w \<longleftrightarrow>
     (ToBoolean (cachedToken w)
      \<and> num_lt (Some (Date_now rt)) (num_sub (tokenExpiresAt w) (Some 60000)))"
  by (cases "tokenExpiresAt w") (auto simp: fresh_def)

lemma getAccessToken_fresh:
  "fresh rt w \<Longrightarrow> getAccessToken rt cid secret w = (Inr (cachedToken w), w)"
  unfolding getAccessToken_def fresh_iff by simp

lemma getAccessToken_stale:
  "\<not> fresh rt w \<Longrightarrow>
   getAccessToken rt cid secret w =
     (let req = token_request rt cid secret;
          w1 = log (Fetch req) w
      in (case fetch rt req of
            NetworkError \<Rightarrow> (Inl TypeError, w1)
          | Response res \<Rightarrow>
              (if \<not> ok res then (Inl (Error (token_error_message res)), log ReadText w1)
               else
                 (case json res of
                    None \<Rightarrow> (Inl SyntaxError, log ReadJson w1)
                  | Some d \<Rightarrow>
                      (case getProp d ''access_token'' of
                         Inl e \<Rightarrow> (Inl e, log ReadJson w1)
                       | Inr tok \<Rightarrow>
                           (case getProp d ''expires_at'' of
                              Inl e \<Rightarrow> (Inl e, (log ReadJson w1)\<lparr>cachedToken := tok\<rparr>)
                            | Inr ex \<Rightarrow>
                                (case new_Date_getTime rt ex of
                                   Inl e \<Rightarrow> (Inl e, (log ReadJson w1)\<lparr>cachedToken := tok\<rparr>)
                                 | Inr t \<Rightarrow>
                                     (Inr tok,
                                      (log ReadJson w1)
                                        \<lparr>cachedToken := tok, tokenExpiresAt := t\<rparr>))))))))"
proof -
  assume "\<not> fresh rt w"
  then have stale: "(ToBoolean (cachedToken w)
      \<and> num_lt (Some (Date_now rt)) (num_sub (tokenExpiresAt w) (Some 60000))) = False"
    by (simp add: fresh_iff)
  show ?thesis
    unfolding getAccessToken_def stale
    by (simp add: Let_def split: reply.splits option.splits sum.splits)
qed

lemma getAccessToken_stale_trace:
  assumes "\<not> fresh rt w" and "getAccessToken rt cid secret w = (r, w')"
  shows "\<exists>tail. trace w' = trace w @ Fetch (token_request rt cid secret) # tail
           \<and> set tail \<subseteq> {ReadText, ReadJson}"
  using assms(2) unfolding getAccessToken_stale [OF assms(1)] Let_def
  by (auto simp: log_def split: reply.splits if_splits option.splits sum.splits)

lemma getAccessToken_stale_success:
  assumes "\<not> fresh rt w" and "getAccessToken rt cid secret w = (Inr tok, w')"
  shows "\<exists>res d ex. fetch rt (token_request rt cid secret) = Response res \<and> ok res
           \<and> json res = Some d \<and> getProp d ''access_token'' = Inr tok
           \<and> getProp d ''expires_at'' = Inr ex
           \<and> cachedToken w' = tok \<and> new_Date_getTime rt ex = Inr (tokenExpiresAt w')"
  using assms(2) unfolding getAccessToken_stale [OF assms(1)] Let_def
  by (auto simp: log_def split: reply.splits if_splits option.splits sum.splits)

text \<open>
  C1. A call of \<open>getAccessToken\<close> with a fresh cached token (there is one, and the clock
  is more than 60 seconds before its expiry) returns the cached value and does nothing
  else: no request is sent. Every other call, so one at exactly 60 seconds or less from
  the expiry, sends exactly one request, the token exchange; when it succeeds, the
  token returned is the \<open>access_token\<close> member of the decoded body and is in the cache,
  with \<open>expires_at\<close> converted to epoch milliseconds as the recorded expiry.
\<close>

theorem getAccessToken_reuse_or_exchange:
  assumes "getAccessToken rt cid secret w = (r, w')"
  shows "(fresh rt w \<longrightarrow> r = Inr (cachedToken w) \<and> w' = w)
       \<and> (\<not> fresh rt w \<longrightarrow>
            (\<exists>tail. trace w' = trace w @ Fetch (token_request rt cid secret) # tail
                     \<and> set tail \<subseteq> {ReadText, ReadJson})
          \<and> (\<forall>tok. r = Inr tok \<longrightarrow>
                (\<exists>res d ex. fetch rt (token_request rt cid secret) = Response res \<and> ok res
                   \<and> json res = Some d \<and> getProp d ''access_token'' = Inr tok
                   \<and> getProp d ''expires_at'' = Inr ex
                   \<and> cachedToken w' = tok
                   \<and> new_Date_getTime rt ex = Inr (tokenExpiresAt w'))))
       \<and> (\<forall>e. tokenExpiresAt w = Some e \<and> e - Date_now rt \<le> 60000 \<longrightarrow> \<not> fresh rt w)"
proof (intro conjI impI allI)
  assume "fresh rt w"
  from getAccessToken_fresh [OF this, of cid secret] assms
  show "r = Inr (cachedToken w)" and "w' = w" by simp_all
next
  assume "\<not> fresh rt w"
  from getAccessToken_stale_trace [OF this assms]
  show "\<exists>tail. trace w' = trace w @ Fetch (token_request rt cid secret) # tail
          \<and> set tail \<subseteq> {ReadText, ReadJson}" .
next
  fix tok
  assume "\<not> fresh rt w" and "r = Inr tok"
  with assms getAccessToken_stale_success [of rt w cid secret tok w']
  show "\<exists>res d ex. fetch rt (token_request rt cid secret) = Response res \<and> ok res
          \<and> json res = Some d \<and> getProp d ''access_token'' = Inr tok
          \<and> getProp d ''expires_at'' = Inr ex
          \<and> cachedToken w' = tok \<and> new_Date_getTime rt ex = Inr (tokenExpiresAt w')"
    by simp
next
  fix e
  assume "tokenExpiresAt w = Some e \<and> e - Date_now rt \<le> 60000"
  then show "\<not> fresh rt w" by (simp add: fresh_def)
qed

lemma sample_token_request:
  "token_request (sample_runtime tr ar now) ''cid'' ''secret'' =
     \<lparr>http_method = ''POST'', url = TOKEN_URL,
      headers = [(''Authorization'', ''Basic Y2lkOnNlY3JldA==''),
                 (''Content-Type'', ''application/x-www-form-urlencoded'')],
      body = Some ''grant_type=client_credentials''\<rparr>"
  by (simp add: token_request_def sample_runtime_def)

lemma sample_exchange:
  "\<not> fresh (sample_runtime token_reply ar now) w \<Longrightarrow>
   getAccessToken (sample_runtime token_reply ar now) ''cid'' ''secret'' w =
     (Inr (JStr ''tok123''),
      w\<lparr>cachedToken := JStr ''tok123'', tokenExpiresAt := Some 1893456000000,
        trace := trace w @ [Fetch (token_request (sample_runtime token_reply ar now) ''cid'' ''secret''), ReadJson]\<rparr>)"
  by (simp add: getAccessToken_stale Let_def sample_token_request)
     (simp add: sample_runtime_def token_reply_def json_reply_def ok_def log_def
        simple_Date_getTime_def new_Date_getTime_def)

theorem getAccessToken_reuse_or_exchange_witness:
  "getAccessToken (sample_runtime token_reply NetworkError 1000000) ''cid'' ''secret''
      (cached_world 1060001) = (Inr (JStr ''old''), cached_world 1060001)
   \<and> \<not> fresh (sample_runtime token_reply NetworkError 1000000) (cached_world 1060000)
   \<and> fst (getAccessToken (sample_runtime token_reply NetworkError 1000000) ''cid'' ''secret''
            (cached_world 1060000)) = Inr (JStr ''tok123'')
   \<and> trace (snd (getAccessToken (sample_runtime token_reply NetworkError 1000000) ''cid'' ''secret''
            (cached_world 1060000)))
       = [Fetch (token_request (sample_runtime token_reply NetworkError 1000000) ''cid'' ''secret''),
          ReadJson]
   \<and> tokenExpiresAt (snd (getAccessToken (sample_runtime token_reply NetworkError 1000000)
            ''cid'' ''secret'' (cached_world 1060000))) = Some 1893456000000"
proof -
  let ?rt = "sample_runtime token_reply NetworkError 1000000"
  have f: "fresh ?rt (cached_world 1060001)"
    by (simp add: fresh_def cached_world_def sample_runtime_def)
  have s: "\<not> fresh ?rt (cached_world 1060000)"
    by (simp add: fresh_def cached_world_def sample_runtime_def)
  obtain r w' where call: "getAccessToken ?rt ''cid'' ''secret'' (cached_world 1060001) = (r, w')"
    by (cases "getAccessToken ?rt ''cid'' ''secret'' (cached_world 1060001)")
  from getAccessToken_reuse_or_exchange [OF call] f
  have reuse: "getAccessToken ?rt ''cid'' ''secret'' (cached_world 1060001)
                 = (Inr (JStr ''old''), cached_world 1060001)"
    unfolding call by (simp add: cached_world_def)
  have ex: "getAccessToken ?rt ''cid'' ''secret'' (cached_world 1060000) =
      (Inr (JStr ''tok123''),
       (cached_world 1060000)\<lparr>cachedToken := JStr ''tok123'', tokenExpiresAt := Some 1893456000000,
         trace := trace (cached_world 1060000) @ [Fetch (token_request ?rt ''cid'' ''secret''), ReadJson]\<rparr>)"
    by (rule sample_exchange [OF s])
  from getAccessToken_reuse_or_exchange [OF ex] s reuse show ?thesis
    unfolding ex by (simp add: cached_world_def configure_def initial_world_def)
qed

subsection \<open>The request engine\<close>

lemma read_page_error:
  "\<not> ok res \<Longrightarrow>
   read_page rt (Response res) w = (Inl (Error (api_error_message res)), log ReadText w)"
  by (simp add: read_page_def)

lemma read_page_no_next:
  "ok res \<Longrightarrow> json res = Some d \<Longrightarrow> parseLinkHeader (linkHeader res) = None \<Longrightarrow>
   read_page rt (Response res) w = (Inr \<lparr>data = d, nextCursor = None\<rparr>, log ReadJson w)"
  by (simp add: read_page_def)

lemma read_page_next:
  assumes "ok res" and "json res = Some d" and "parseLinkHeader (linkHeader res) = Some u"
    and "URL_new rt u = Some parsed"
  shows "read_page rt (Response res) w =
           (Inr \<lparr>data = d, nextCursor = searchParams_get parsed ''cursor''\<rparr>, log ReadJson w)"
proof -
  from parseLinkHeader_Some [OF assms(3)] have "u \<noteq> []" by blast
  with assms show ?thesis by (simp add: read_page_def)
qed

lemma read_page_invalid_next:
  assumes "ok res" and "json res = Some d" and "parseLinkHeader (linkHeader res) = Some u"
    and "URL_new rt u = None"
  shows "read_page rt (Response res) w = (Inl TypeError, log ReadJson w)"
proof -
  from parseLinkHeader_Some [OF assms(3)] have "u \<noteq> []" by blast
  with assms show ?thesis by (simp add: read_page_def)
qed

lemma get_request_printable:
  "ToString rt token = Inr t \<Longrightarrow>
   get_request rt u token =
     Inr \<lparr>http_method = ''GET'', url = u,
          headers = [(''Authorization'', ''Bearer '' @ t), (''Accept'', ''application/json'')],
          body = None\<rparr>"
  by (simp add: get_request_def)

lemma get_request_url: "get_request rt u token = Inr req \<Longrightarrow> url req = u"
  by (auto simp: get_request_def split: sum.splits)

lemma apiGet_sends:
  assumes "config w = Some c"
    and "getAccessToken rt (clientId c) (clientSecret c) w = (Inr token, w1)"
    and "buildUrl rt path params = Inr u" and "get_request rt u token = Inr req"
  shows "apiGet rt path params w = read_page rt (fetch rt req) (log (Fetch req) w1)"
  using assms by (simp add: apiGet_def getConfig_def)

lemma apiGet_no_primitive_token:
  assumes "config w = Some c"
    and "getAccessToken rt (clientId c) (clientSecret c) w = (Inr token, w1)"
    and "buildUrl rt path params = Inr u" and "ToString rt token = Inl e"
  shows "apiGet rt path params w = (Inl e, w1)"
  using assms by (simp add: apiGet_def getConfig_def get_request_def)

lemma apiGetWithCursor_sends:
  assumes "config w = Some c"
    and "getAccessToken rt (clientId c) (clientSecret c) w = (Inr token, w1)"
    and "URL_new rt (BASE_URL @ path) = Some u0"
    and "get_request rt (cursor_url rt u0 cursor) token = Inr req"
  shows "apiGetWithCursor rt path cursor perPage w =
           read_page rt (fetch rt req) (log (Fetch req) w1)"
  using assms by (simp add: apiGetWithCursor_def getConfig_def)

lemma cursor_url_query:
  assumes "searchParams u0 = []"
  shows "cursor_url rt u0 cursor = with_query u0 [(''cursor'', String rt cursor)]"
proof -
  have "form_serialize [(''cursor'', String rt cursor)] \<noteq> []"
    by (simp add: form_serialize_empty)
  then show ?thesis
    using assms
    by (simp add: cursor_url_def with_query_def searchParams_set_def URL_toString_def Let_def)
qed

lemma buildUrl_with_query:
  assumes "URL_new rt (BASE_URL @ path) = Some u0" and "searchParams u0 = []"
    and "query u0 = None" and "distinct (map fst ps)"
  shows "buildUrl rt path (Some ps) = Inr (with_query u0 (sent_entries rt ps))"
  using buildUrl_query [OF assms] by (simp add: with_query_def)

lemma form_serialize_one: "form_serialize [(name, v)] = urlencode name @ CHR ''='' # urlencode v"
  by (simp add: form_serialize_def)

lemma urlencode_cursor: "urlencode ''cursor'' = ''cursor''"
  by (simp add: urlencode_def encode_byte_def form_safe_def)

lemma show_nat_digit: "n < 10 \<Longrightarrow> show_nat n = [digit_char n]"
  by (simp add: show_nat.simps)

lemma safe_integer_of_int:
  "safe_integer (of_int i) \<longleftrightarrow> \<bar>i\<bar> \<le> 9007199254740991"
  by (simp add: safe_integer_def)

lemma Number_toString_5: "Number_toString rt (Finite 5) = ''5''"
proof -
  have "safe_integer 5" using safe_integer_of_int [of 5] by simp
  then show ?thesis
    by (simp add: Number_toString_def show_int_def show_nat_digit digit_char_def)
qed

lemma sample_bag_sent:
  "sent_entries rt [(''a'', SUndefined), (''b'', SStr []), (''c'', SStr ''x''),
                    (''d'', SNum (Finite 5)), (''e'', SBool False)]
     = [(''c'', ''x''), (''d'', ''5''), (''e'', ''false'')]"
  by (simp add: sent_entries_def Number_toString_5)

lemma sample_bag_query:
  "form_serialize [(''c'', ''x''), (''d'', ''5''), (''e'', ''false'')] = ''c=x&d=5&e=false''"
  by (simp add: form_serialize_def urlencode_def encode_byte_def form_safe_def)


lemma sample_big_numbers:
  "sent_entries (sample_runtime tr ar now)
      [(''d'', SNum (Finite 1000000000000000000000)), (''h'', SNum (Finite (1 / 2)))]
     = [(''d'', ''1e+21''), (''h'', ''0.5'')]"
proof -
  have big: "\<not> safe_integer 1000000000000000000000"
    using safe_integer_of_int [of 1000000000000000000000] by simp
  have "\<lfloor>1 / 2 :: rat\<rfloor> = 0"
    by (rule floor_unique) simp_all
  then have half: "\<not> safe_integer (1 / 2)"
    by (simp add: safe_integer_def)
  show ?thesis
    by (simp add: sent_entries_def Number_toString_def big half sample_runtime_def)
qed

lemma sample_big_query:
  "form_serialize [(''d'', ''1e+21''), (''h'', ''0.5'')] = ''d=1e%2B21&h=0.5''"
  by (simp add: form_serialize_def urlencode_def encode_byte_def form_safe_def hex_digit_def)

text \<open>
  C3. For every filter bag passed to \<open>apiGet\<close> (its keys distinct, as the keys of an
  object are, the path without a query of its own, and a token that can go into the
  header), the request sent has as URL the base URL and path followed by the query
  string that serialises exactly the entries whose value is neither \<open>undefined\<close> nor
  the empty string, in order, each value as a string: a string as it is, a boolean as
  \<open>true\<close> or \<open>false\<close>, a number in the notation of \<open>String\<close> (decimal for a safe
  integer). Parsing that query string gives those entries back, so a dropped entry
  is not there as \<open>key=\<close>. For the bag \<open>{a: undefined, b: "", c: "x", d: 5, e: false}\<close>
  the query string is \<open>c=x&d=5&e=false\<close>.
\<close>

theorem apiGet_sends_defined_nonempty_entries:
  assumes "URL_new rt (BASE_URL @ path) = Some u0" and "searchParams u0 = []"
    and "query u0 = None" and "distinct (map fst ps)"
    and "config w = Some c"
    and "getAccessToken rt (clientId c) (clientSecret c) w = (Inr token, w1)"
    and "ToString rt token = Inr bearer"
  shows "buildUrl rt path (Some ps) =
           Inr (origin_path u0
                  @ (if sent_entries rt ps = [] then []
                     else ''?'' @ form_serialize (sent_entries rt ps))
                  @ hash u0)
       \<and> apiGet rt path (Some ps) w =
           read_page rt
             (fetch rt
                \<lparr>http_method = ''GET'',
                 url = origin_path u0
                         @ (if sent_entries rt ps = [] then []
                            else ''?'' @ form_serialize (sent_entries rt ps))
                         @ hash u0,
                 headers = [(''Authorization'', ''Bearer '' @ bearer),
                            (''Accept'', ''application/json'')],
                 body = None\<rparr>)
             (log (Fetch
                     \<lparr>http_method = ''GET'',
                      url = origin_path u0
                              @ (if sent_entries rt ps = [] then []
                                 else ''?'' @ form_serialize (sent_entries rt ps))
                              @ hash u0,
                      headers = [(''Authorization'', ''Bearer '' @ bearer),
                                 (''Accept'', ''application/json'')],
                      body = None\<rparr>) w1)
       \<and> form_parse (form_serialize (sent_entries rt ps)) = sent_entries rt ps
       \<and> (\<forall>key v. (key, v) \<in> set ps \<longrightarrow>
             ((key, String rt v) \<in> set (sent_entries rt ps) \<longleftrightarrow> v \<noteq> SUndefined \<and> v \<noteq> SStr []))
       \<and> (\<forall>key s. (key, SStr s) \<in> set ps \<and> s \<noteq> [] \<longrightarrow> (key, s) \<in> set (sent_entries rt ps))
       \<and> (\<forall>key b. (key, SBool b) \<in> set ps \<longrightarrow>
             (key, if b then ''true'' else ''false'') \<in> set (sent_entries rt ps))
       \<and> (\<forall>key q. (key, SNum (Finite q)) \<in> set ps \<longrightarrow>
             (key, if safe_integer q then show_int \<lfloor>q\<rfloor> else print_number rt q)
               \<in> set (sent_entries rt ps))
       \<and> (ps = [(''a'', SUndefined), (''b'', SStr []), (''c'', SStr ''x''),
                 (''d'', SNum (Finite 5)), (''e'', SBool False)]
            \<longrightarrow> buildUrl rt path (Some ps) = Inr (origin_path u0 @ ''?c=x&d=5&e=false'' @ hash u0))"
proof -
  have url: "buildUrl rt path (Some ps) = Inr (with_query u0 (sent_entries rt ps))"
    by (rule buildUrl_with_query [OF assms(1-4)])
  have sends: "apiGet rt path (Some ps) w =
      read_page rt
        (fetch rt \<lparr>http_method = ''GET'', url = with_query u0 (sent_entries rt ps),
                   headers = [(''Authorization'', ''Bearer '' @ bearer),
                              (''Accept'', ''application/json'')],
                   body = None\<rparr>)
        (log (Fetch \<lparr>http_method = ''GET'', url = with_query u0 (sent_entries rt ps),
                     headers = [(''Authorization'', ''Bearer '' @ bearer),
                                (''Accept'', ''application/json'')],
                     body = None\<rparr>) w1)"
    by (rule apiGet_sends [OF assms(5,6) url get_request_printable [OF assms(7)]])
  have kept: "(key, String rt v) \<in> set (sent_entries rt ps)"
    if "(key, v) \<in> set ps" "v \<noteq> SUndefined" "v \<noteq> SStr []" for key v
    using that by (force simp: sent_entries_def)
  have mem: "(key, String rt v) \<in> set (sent_entries rt ps) \<longleftrightarrow> v \<noteq> SUndefined \<and> v \<noteq> SStr []"
    if "(key, v) \<in> set ps" for key v
  proof
    assume "(key, String rt v) \<in> set (sent_entries rt ps)"
    then obtain v' where v': "(key, v') \<in> set ps" "v' \<noteq> SUndefined" "v' \<noteq> SStr []"
      by (auto simp: sent_entries_def)
    from assms(4) that v'(1) have "v' = v"
      by (meson eq_key_imp_eq_value)
    with v' show "v \<noteq> SUndefined \<and> v \<noteq> SStr []" by simp
  next
    assume "v \<noteq> SUndefined \<and> v \<noteq> SStr []"
    with that kept show "(key, String rt v) \<in> set (sent_entries rt ps)" by blast
  qed
  have str: "(key, s) \<in> set (sent_entries rt ps)" if "(key, SStr s) \<in> set ps \<and> s \<noteq> []" for key s
    using kept [of key "SStr s"] that by simp
  have bool: "(key, if b then ''true'' else ''false'') \<in> set (sent_entries rt ps)"
    if "(key, SBool b) \<in> set ps" for key b
    using kept [of key "SBool b"] that by simp
  have num: "(key, if safe_integer q then show_int \<lfloor>q\<rfloor> else print_number rt q)
      \<in> set (sent_entries rt ps)"
    if "(key, SNum (Finite q)) \<in> set ps" for key q
    using kept [of key "SNum (Finite q)"] that by (simp add: Number_toString_def)
  have example: "buildUrl rt path (Some ps) = Inr (origin_path u0 @ ''?c=x&d=5&e=false'' @ hash u0)"
    if "ps = [(''a'', SUndefined), (''b'', SStr []), (''c'', SStr ''x''),
              (''d'', SNum (Finite 5)), (''e'', SBool False)]"
    unfolding url unfolding that sample_bag_sent
    by (simp add: with_query_def sample_bag_query)
  from url sends mem str bool num example show ?thesis
    by (simp add: form_parse_serialize with_query_def)
qed


lemma sample_jobs_url:
  "simple_URL_new (BASE_URL @ ''/jobs'') =
     Some \<lparr>origin_path = ''https://harvest.greenhouse.io/v3/jobs'', query = None,
            searchParams = [], hash = []\<rparr>"
  by (simp add: simple_URL_new_def BASE_URL_def form_parse_def)

lemma sample_URL_new: "URL_new (sample_runtime tr ar now) = simple_URL_new"
  by (simp add: sample_runtime_def)

lemma sample_fresh: "fresh (sample_runtime tr ar 1000000) (cached_world 1893456000000)"
  by (simp add: fresh_def cached_world_def sample_runtime_def)

lemma sample_cached_token:
  "getAccessToken (sample_runtime tr ar 1000000) cid secret (cached_world 1893456000000)
     = (Inr (JStr ''old''), cached_world 1893456000000)"
  using getAccessToken_fresh [OF sample_fresh] by (simp add: cached_world_def)

lemma sample_config:
  "config (cached_world e) = Some \<lparr>clientId = ''cid'', clientSecret = ''secret''\<rparr>"
  by (simp add: cached_world_def configure_def)

lemma sample_trace: "trace (cached_world e) = []"
  by (simp add: cached_world_def configure_def initial_world_def)

lemma sample_bearer: "ToString rt (JStr ''old'') = Inr ''old''"
  by simp

lemma sample_page:
  "read_page (sample_runtime tr ar now) (json_reply 200 ''OK'' ''[]'' (Some (JArr [])) None) w
     = (Inr \<lparr>data = JArr [], nextCursor = None\<rparr>, log ReadJson w)"
  by (simp add: json_reply_def read_page_no_next ok_def parseLinkHeader_def)

lemma sample_api_reply:
  "url req \<noteq> TOKEN_URL \<Longrightarrow> fetch (sample_runtime tr ar now) req = ar"
  by (simp add: sample_runtime_def)

theorem apiGet_sends_defined_nonempty_entries_witness:
  "apiGet (sample_runtime token_reply (json_reply 200 ''OK'' ''[]'' (Some (JArr [])) None) 1000000)
      ''/jobs''
      (Some [(''a'', SUndefined), (''b'', SStr []), (''c'', SStr ''x''), (''d'', SNum (Finite 5)),
             (''e'', SBool False)])
      (cached_world 1893456000000)
     = (Inr \<lparr>data = JArr [], nextCursor = None\<rparr>,
        (cached_world 1893456000000)
          \<lparr>trace := [Fetch \<lparr>http_method = ''GET'',
                             url = ''https://harvest.greenhouse.io/v3/jobs?c=x&d=5&e=false'',
                             headers = [(''Authorization'', ''Bearer old''),
                                        (''Accept'', ''application/json'')],
                             body = None\<rparr>,
                      ReadJson]\<rparr>)
   \<and> buildUrl (sample_runtime token_reply (json_reply 200 ''OK'' ''[]'' (Some (JArr [])) None) 1000000)
      ''/jobs''
      (Some [(''d'', SNum (Finite 1000000000000000000000)), (''h'', SNum (Finite (1 / 2)))])
     = Inr ''https://harvest.greenhouse.io/v3/jobs?d=1e%2B21&h=0.5''"
proof -
  let ?rt = "sample_runtime token_reply (json_reply 200 ''OK'' ''[]'' (Some (JArr [])) None) 1000000"
  let ?ps = "[(''a'', SUndefined), (''b'', SStr []), (''c'', SStr ''x''), (''d'', SNum (Finite 5)),
              (''e'', SBool False)]"
  let ?big = "[(''d'', SNum (Finite 1000000000000000000000)), (''h'', SNum (Finite (1 / 2)))]"
  have u0: "URL_new ?rt (BASE_URL @ ''/jobs'') =
      Some \<lparr>origin_path = ''https://harvest.greenhouse.io/v3/jobs'', query = None,
             searchParams = [], hash = []\<rparr>"
    by (simp add: sample_URL_new sample_jobs_url)
  have d: "distinct (map fst ?ps)" and d': "distinct (map fst ?big)" by simp_all
  have first: "apiGet ?rt ''/jobs'' (Some ?ps) (cached_world 1893456000000)
     = (Inr \<lparr>data = JArr [], nextCursor = None\<rparr>,
        (cached_world 1893456000000)
          \<lparr>trace := [Fetch \<lparr>http_method = ''GET'',
                             url = ''https://harvest.greenhouse.io/v3/jobs?c=x&d=5&e=false'',
                             headers = [(''Authorization'', ''Bearer old''),
                                        (''Accept'', ''application/json'')],
                             body = None\<rparr>,
                      ReadJson]\<rparr>)"
    using apiGet_sends_defined_nonempty_entries
            [OF u0 _ _ d sample_config sample_cached_token sample_bearer]
    by (simp add: sample_bag_sent sample_bag_query sample_api_reply TOKEN_URL_def sample_page
          log_def sample_trace)
  have second: "buildUrl ?rt ''/jobs'' (Some ?big)
      = Inr ''https://harvest.greenhouse.io/v3/jobs?d=1e%2B21&h=0.5''"
    using apiGet_sends_defined_nonempty_entries
            [OF u0 _ _ d' sample_config sample_cached_token sample_bearer]
    by (simp add: sample_big_numbers sample_big_query)
  from first second show ?thesis by simp
qed

lemma tool_rest_keys: "''cursor'' \<notin> fst ` set (tool_rest args)"
  by (auto simp: tool_rest_def)

lemma tool_rest_distinct: "distinct (map fst args) \<Longrightarrow> distinct (map fst (tool_rest args))"
  by (simp add: tool_rest_def distinct_map_filter)

lemma one_cursor_parameter:
  "form_parse (''cursor='' @ urlencode v) = [(''cursor'', v)]"
  using form_parse_serialize [of "[(''cursor'', v)]"]
  by (simp add: form_serialize_one urlencode_cursor)

text \<open>
  C2. \<open>listEndpoint\<close> calls \<open>apiGetWithCursor\<close> when its cursor is present (a value that
  \<open>if (cursor)\<close> takes) and \<open>apiGet\<close> with the filter bag otherwise. The request that
  \<open>apiGetWithCursor\<close> sends has as URL the base URL and path followed by \<open>?cursor=\<close>
  and the encoded cursor: a query string that parses to the one parameter \<open>cursor\<close>,
  whatever filters the caller holds. A list tool, which takes \<open>cursor\<close> out of its
  arguments and passes the rest as the bag, therefore sends either that request or
  a request whose query string has the filters and no \<open>cursor\<close>: never both.
\<close>

theorem listEndpoint_cursor_or_filters:
  assumes "URL_new rt (BASE_URL @ path) = Some u0" and "searchParams u0 = []"
    and "query u0 = None" and "distinct (map fst args)"
    and "config w = Some c"
    and "getAccessToken rt (clientId c) (clientSecret c) w = (Inr token, w1)"
    and "ToString rt token = Inr bearer"
  shows "(truthy cursor \<longrightarrow>
            listEndpoint rt path params cursor w = apiGetWithCursor rt path cursor SUndefined w
          \<and> apiGetWithCursor rt path cursor SUndefined w =
              read_page rt
                (fetch rt
                   \<lparr>http_method = ''GET'',
                    url = origin_path u0 @ ''?cursor='' @ urlencode (String rt cursor) @ hash u0,
                    headers = [(''Authorization'', ''Bearer '' @ bearer),
                               (''Accept'', ''application/json'')],
                    body = None\<rparr>)
                (log (Fetch
                        \<lparr>http_method = ''GET'',
                         url = origin_path u0 @ ''?cursor='' @ urlencode (String rt cursor)
                                 @ hash u0,
                         headers = [(''Authorization'', ''Bearer '' @ bearer),
                                    (''Accept'', ''application/json'')],
                         body = None\<rparr>) w1)
          \<and> form_parse (''cursor='' @ urlencode (String rt cursor))
              = [(''cursor'', String rt cursor)])
       \<and> (\<not> truthy cursor \<longrightarrow>
            listEndpoint rt path params cursor w = apiGet rt path (Some params) w)
       \<and> list_tool rt path args w =
            (if truthy (tool_cursor args)
             then read_page rt
                    (fetch rt
                       \<lparr>http_method = ''GET'',
                        url = origin_path u0 @ ''?cursor=''
                                @ urlencode (String rt (tool_cursor args)) @ hash u0,
                        headers = [(''Authorization'', ''Bearer '' @ bearer),
                                   (''Accept'', ''application/json'')],
                        body = None\<rparr>)
                    (log (Fetch
                            \<lparr>http_method = ''GET'',
                             url = origin_path u0 @ ''?cursor=''
                                     @ urlencode (String rt (tool_cursor args)) @ hash u0,
                             headers = [(''Authorization'', ''Bearer '' @ bearer),
                                        (''Accept'', ''application/json'')],
                             body = None\<rparr>) w1)
             else read_page rt
                    (fetch rt
                       \<lparr>http_method = ''GET'',
                        url = origin_path u0
                                @ (if sent_entries rt (tool_rest args) = [] then []
                                   else ''?'' @ form_serialize (sent_entries rt (tool_rest args)))
                                @ hash u0,
                        headers = [(''Authorization'', ''Bearer '' @ bearer),
                                   (''Accept'', ''application/json'')],
                        body = None\<rparr>)
                    (log (Fetch
                            \<lparr>http_method = ''GET'',
                             url = origin_path u0
                                     @ (if sent_entries rt (tool_rest args) = [] then []
                                        else ''?''
                                          @ form_serialize (sent_entries rt (tool_rest args)))
                                     @ hash u0,
                             headers = [(''Authorization'', ''Bearer '' @ bearer),
                                        (''Accept'', ''application/json'')],
                             body = None\<rparr>) w1))
       \<and> ''cursor'' \<notin> fst ` set (form_parse (form_serialize (sent_entries rt (tool_rest args))))"
proof -
  have cur: "apiGetWithCursor rt path k SUndefined w =
      read_page rt
        (fetch rt \<lparr>http_method = ''GET'', url = with_query u0 [(''cursor'', String rt k)],
                   headers = [(''Authorization'', ''Bearer '' @ bearer),
                              (''Accept'', ''application/json'')],
                   body = None\<rparr>)
        (log (Fetch \<lparr>http_method = ''GET'', url = with_query u0 [(''cursor'', String rt k)],
                     headers = [(''Authorization'', ''Bearer '' @ bearer),
                                (''Accept'', ''application/json'')],
                     body = None\<rparr>) w1)" for k
    using apiGetWithCursor_sends [OF assms(5,6,1) get_request_printable [OF assms(7)]]
      cursor_url_query [OF assms(2)] by simp
  have shape: "with_query u0 [(''cursor'', v)]
      = origin_path u0 @ ''?cursor='' @ urlencode v @ hash u0" for v
    by (simp add: with_query_def form_serialize_one urlencode_cursor)
  have fil: "apiGet rt path (Some (tool_rest args)) w =
      read_page rt
        (fetch rt \<lparr>http_method = ''GET'', url = with_query u0 (sent_entries rt (tool_rest args)),
                   headers = [(''Authorization'', ''Bearer '' @ bearer),
                              (''Accept'', ''application/json'')],
                   body = None\<rparr>)
        (log (Fetch \<lparr>http_method = ''GET'',
                     url = with_query u0 (sent_entries rt (tool_rest args)),
                     headers = [(''Authorization'', ''Bearer '' @ bearer),
                                (''Accept'', ''application/json'')],
                     body = None\<rparr>) w1)"
    using apiGet_sends [OF assms(5,6)
        buildUrl_with_query [OF assms(1-3) tool_rest_distinct [OF assms(4)]]
        get_request_printable [OF assms(7)]] .
  have nocur: "''cursor'' \<notin> fst ` set (form_parse (form_serialize (sent_entries rt (tool_rest args))))"
    unfolding form_parse_serialize using sent_entries_keys tool_rest_keys by blast
  have tool: "list_tool rt path args w =
      (if truthy (tool_cursor args)
       then apiGetWithCursor rt path (tool_cursor args) SUndefined w
       else apiGet rt path (Some (tool_rest args)) w)"
    by (simp add: list_tool_def listEndpoint_def)
  have one: "form_parse (''cursor='' @ urlencode (String rt cursor)) = [(''cursor'', String rt cursor)]"
    by (rule one_cursor_parameter)
  have wq: "with_query u0 l
      = origin_path u0 @ (if l = [] then [] else ''?'' @ form_serialize l) @ hash u0" for l
    by (simp add: with_query_def)
  show ?thesis
    using nocur one
    by (simp add: tool cur fil shape listEndpoint_def wq [of "sent_entries rt (tool_rest args)"])
qed

theorem listEndpoint_cursor_or_filters_witness:
  "list_tool (sample_runtime token_reply (json_reply 200 ''OK'' ''[]'' (Some (JArr [])) None) 1000000)
      ''/jobs''
      [(''per_page'', SNum (Finite 5)), (''cursor'', SStr ''abc123''), (''status'', SStr ''open'')]
      (cached_world 1893456000000)
     = (Inr \<lparr>data = JArr [], nextCursor = None\<rparr>,
        (cached_world 1893456000000)
          \<lparr>trace := [Fetch \<lparr>http_method = ''GET'',
                             url = ''https://harvest.greenhouse.io/v3/jobs?cursor=abc123'',
                             headers = [(''Authorization'', ''Bearer old''),
                                        (''Accept'', ''application/json'')],
                             body = None\<rparr>,
                      ReadJson]\<rparr>)
   \<and> list_tool (sample_runtime token_reply (json_reply 200 ''OK'' ''[]'' (Some (JArr [])) None) 1000000)
      ''/jobs'' [(''per_page'', SNum (Finite 5)), (''status'', SStr ''open'')]
      (cached_world 1893456000000)
     = (Inr \<lparr>data = JArr [], nextCursor = None\<rparr>,
        (cached_world 1893456000000)
          \<lparr>trace := [Fetch \<lparr>http_method = ''GET'',
                             url = ''https://harvest.greenhouse.io/v3/jobs?per_page=5&status=open'',
                             headers = [(''Authorization'', ''Bearer old''),
                                        (''Accept'', ''application/json'')],
                             body = None\<rparr>,
                      ReadJson]\<rparr>)"
proof -
  let ?rt = "sample_runtime token_reply (json_reply 200 ''OK'' ''[]'' (Some (JArr [])) None) 1000000"
  let ?with = "[(''per_page'', SNum (Finite 5)), (''cursor'', SStr ''abc123''),
                (''status'', SStr ''open'')]"
  let ?without = "[(''per_page'', SNum (Finite 5)), (''status'', SStr ''open'')]"
  have u0: "URL_new ?rt (BASE_URL @ ''/jobs'') =
      Some \<lparr>origin_path = ''https://harvest.greenhouse.io/v3/jobs'', query = None,
             searchParams = [], hash = []\<rparr>"
    by (simp add: sample_URL_new sample_jobs_url)
  have d1: "distinct (map fst ?with)" and d2: "distinct (map fst ?without)" by simp_all
  have q: "form_serialize [(''per_page'', ''5''), (''status'', ''open'')] = ''per_page=5&status=open''"
    by (simp add: form_serialize_def urlencode_def encode_byte_def form_safe_def)
  have enc: "urlencode ''abc123'' = ''abc123''"
    by (simp add: urlencode_def encode_byte_def form_safe_def)
  have a: "list_tool ?rt ''/jobs'' ?with (cached_world 1893456000000)
      = (Inr \<lparr>data = JArr [], nextCursor = None\<rparr>,
         (cached_world 1893456000000)
           \<lparr>trace := [Fetch \<lparr>http_method = ''GET'',
                              url = ''https://harvest.greenhouse.io/v3/jobs?cursor=abc123'',
                              headers = [(''Authorization'', ''Bearer old''),
                                         (''Accept'', ''application/json'')],
                              body = None\<rparr>, ReadJson]\<rparr>)"
    using listEndpoint_cursor_or_filters
            [OF u0 _ _ d1 sample_config sample_cached_token sample_bearer,
             of "SStr ''abc123''" "tool_rest ?with"]
    by (simp add: tool_cursor_def enc sample_api_reply TOKEN_URL_def sample_page log_def
          sample_trace)
  have b: "list_tool ?rt ''/jobs'' ?without (cached_world 1893456000000)
      = (Inr \<lparr>data = JArr [], nextCursor = None\<rparr>,
         (cached_world 1893456000000)
           \<lparr>trace := [Fetch \<lparr>http_method = ''GET'',
                              url = ''https://harvest.greenhouse.io/v3/jobs?per_page=5&status=open'',
                              headers = [(''Authorization'', ''Bearer old''),
                                         (''Accept'', ''application/json'')],
                              body = None\<rparr>, ReadJson]\<rparr>)"
    using listEndpoint_cursor_or_filters
            [OF u0 _ _ d2 sample_config sample_cached_token sample_bearer,
             of SUndefined "tool_rest ?without"]
    by (simp add: tool_cursor_def tool_rest_def sent_entries_def Number_toString_5 q
          sample_api_reply TOKEN_URL_def sample_page log_def sample_trace)
  from a b show ?thesis by simp
qed

lemma next_entry_found:
  assumes "next_entry h n"
  shows "\<exists>n'. parseLinkHeader (Some h) = Some n' \<and> next_entry h n'"
proof -
  from regex_search_complete [OF assms] obtain n' where n': "regex_search h = Some n'"
    by blast
  then have "h \<noteq> []" by auto
  with n' regex_search_sound [OF n'] show ?thesis
    by (simp add: parseLinkHeader_def)
qed

lemma sample_next_header:
  "parseLinkHeader (Some ''<https://host/v3/jobs?cursor=abc123>; rel=\"next\"'')
     = Some ''https://host/v3/jobs?cursor=abc123''"
  by (simp add: parseLinkHeader_def not_gt_def is_space_def)

text \<open>
  C4. After a GET of \<open>apiGet\<close> or \<open>apiGetWithCursor\<close> that is answered with a 2xx
  status and a JSON body: when the link header has an entry tagged \<open>rel="next"\<close>, the
  header is matched at its first such entry, and with that entry's URL parsed the call
  returns as \<open>nextCursor\<close> the value of the \<open>cursor\<close> parameter of that URL; when there
  is no link header, or it has no such entry, \<open>nextCursor\<close> is \<open>null\<close>. The header
  \<open><https://host/v3/jobs?cursor=abc123>; rel="next"\<close> is matched at
  \<open>https://host/v3/jobs?cursor=abc123\<close>.
\<close>

theorem nextCursor_from_link_header:
  assumes "config w = Some c"
    and "getAccessToken rt (clientId c) (clientSecret c) w = (Inr token, w1)"
    and "ok res" and "json res = Some d"
    and "call = apiGet rt path params w
           \<and> (\<exists>u req. buildUrl rt path params = Inr u \<and> get_request rt u token = Inr req
                 \<and> fetch rt req = Response res)
         \<or> call = apiGetWithCursor rt path cursor perPage w
           \<and> (\<exists>u0 req. URL_new rt (BASE_URL @ path) = Some u0
                 \<and> get_request rt (cursor_url rt u0 cursor) token = Inr req
                 \<and> fetch rt req = Response res)"
  shows "(\<forall>h. linkHeader res = Some h \<and> (\<exists>n. next_entry h n) \<longrightarrow>
            (\<exists>n. parseLinkHeader (Some h) = Some n \<and> next_entry h n
               \<and> (\<forall>parsed. URL_new rt n = Some parsed \<longrightarrow>
                     fst call = Inr \<lparr>data = d, nextCursor = searchParams_get parsed ''cursor''\<rparr>)))
       \<and> (linkHeader res = None \<or> (\<forall>n. \<not> next_entry (the (linkHeader res)) n) \<longrightarrow>
            fst call = Inr \<lparr>data = d, nextCursor = None\<rparr>)
       \<and> parseLinkHeader (Some ''<https://host/v3/jobs?cursor=abc123>; rel=\"next\"'')
            = Some ''https://host/v3/jobs?cursor=abc123''"
proof -
  from assms(5) obtain req where call: "call = read_page rt (Response res) (log (Fetch req) w1)"
    using apiGet_sends [OF assms(1,2)] apiGetWithCursor_sends [OF assms(1,2)] by auto
  have some: "\<exists>n. parseLinkHeader (Some h) = Some n \<and> next_entry h n
        \<and> (\<forall>parsed. URL_new rt n = Some parsed \<longrightarrow>
              fst call = Inr \<lparr>data = d, nextCursor = searchParams_get parsed ''cursor''\<rparr>)"
    if h: "linkHeader res = Some h" and e: "\<exists>n. next_entry h n" for h
  proof -
    from e next_entry_found obtain n where n: "parseLinkHeader (Some h) = Some n" "next_entry h n"
      by blast
    have "fst call = Inr \<lparr>data = d, nextCursor = searchParams_get parsed ''cursor''\<rparr>"
      if "URL_new rt n = Some parsed" for parsed
      unfolding call using read_page_next [OF assms(3,4) _ that] n(1) h by simp
    with n show ?thesis by blast
  qed
  have none: "fst call = Inr \<lparr>data = d, nextCursor = None\<rparr>"
    if "linkHeader res = None \<or> (\<forall>n. \<not> next_entry (the (linkHeader res)) n)"
  proof -
    from that have "parseLinkHeader (linkHeader res) = None"
      by (simp add: parseLinkHeader_None_iff)
    from read_page_no_next [OF assms(3,4) this] show ?thesis
      unfolding call by simp
  qed
  from some none sample_next_header show ?thesis by blast
qed


lemma sample_next_url:
  "simple_URL_new ''https://host/v3/jobs?cursor=abc123'' =
     Some \<lparr>origin_path = ''https://host/v3/jobs'', query = Some ''cursor=abc123'',
            searchParams = [(''cursor'', ''abc123'')], hash = []\<rparr>"
  by (simp add: simple_URL_new_def form_parse_def parse_pair_def form_decode_def
        plus_to_space_def)

theorem nextCursor_from_link_header_witness:
  "fst (apiGet
          (sample_runtime token_reply
             (json_reply 200 ''OK'' ''[]'' (Some (JArr []))
                (Some ''<https://host/v3/jobs?cursor=abc123>; rel=\"next\"''))
             1000000)
          ''/jobs'' None (cached_world 1893456000000))
     = Inr \<lparr>data = JArr [], nextCursor = Some ''abc123''\<rparr>
   \<and> fst (apiGetWithCursor
          (sample_runtime token_reply (json_reply 200 ''OK'' ''[]'' (Some (JArr [])) None) 1000000)
          ''/jobs'' (SStr ''abc123'') SUndefined (cached_world 1893456000000))
     = Inr \<lparr>data = JArr [], nextCursor = None\<rparr>"
proof -
  let ?h = "''<https://host/v3/jobs?cursor=abc123>; rel=\"next\"''"
  let ?res = "\<lparr>status = 200, statusText = ''OK'', bodyText = ''[]'', json = Some (JArr []),
                linkHeader = Some ?h\<rparr>"
  let ?res' = "\<lparr>status = 200, statusText = ''OK'', bodyText = ''[]'', json = Some (JArr []),
                 linkHeader = None\<rparr>"
  let ?rt = "sample_runtime token_reply (Response ?res) 1000000"
  let ?rt' = "sample_runtime token_reply (Response ?res') 1000000"
  let ?w = "cached_world 1893456000000"
  let ?req = "\<lparr>http_method = ''GET'', url = ''https://harvest.greenhouse.io/v3/jobs'',
                headers = [(''Authorization'', ''Bearer old''), (''Accept'', ''application/json'')],
                body = None\<rparr>"
  let ?req' = "\<lparr>http_method = ''GET'', url = ''https://harvest.greenhouse.io/v3/jobs?cursor=abc123'',
                 headers = [(''Authorization'', ''Bearer old''), (''Accept'', ''application/json'')],
                 body = None\<rparr>"
  have url: "buildUrl ?rt ''/jobs'' None = Inr ''https://harvest.greenhouse.io/v3/jobs''"
    by (simp add: buildUrl_def sample_URL_new sample_jobs_url URL_toString_def)
  have req: "get_request ?rt ''https://harvest.greenhouse.io/v3/jobs'' (JStr ''old'') = Inr ?req"
    by (simp add: get_request_def)
  have "fetch ?rt ?req = Response ?res"
    by (simp add: sample_api_reply TOKEN_URL_def)
  with url req have sent: "apiGet ?rt ''/jobs'' None ?w = apiGet ?rt ''/jobs'' None ?w
      \<and> (\<exists>u req. buildUrl ?rt ''/jobs'' None = Inr u
            \<and> get_request ?rt u (JStr ''old'') = Inr req \<and> fetch ?rt req = Response ?res)"
    by simp
  have entry: "\<exists>n. next_entry ?h n"
    using parseLinkHeader_Some [OF sample_next_header] by auto
  have okr: "ok ?res" "ok ?res'" by (simp_all add: ok_def)
  from nextCursor_from_link_header [OF sample_config sample_cached_token okr(1) _ disjI1 [OF sent]]
    entry
  obtain n where n: "parseLinkHeader (Some ?h) = Some n"
    and get: "\<forall>parsed. URL_new ?rt n = Some parsed \<longrightarrow>
        fst (apiGet ?rt ''/jobs'' None ?w)
          = Inr \<lparr>data = JArr [], nextCursor = searchParams_get parsed ''cursor''\<rparr>"
    by force
  from n have "n = ''https://host/v3/jobs?cursor=abc123''"
    unfolding sample_next_header by simp
  with get have first: "fst (apiGet ?rt ''/jobs'' None ?w)
      = Inr \<lparr>data = JArr [], nextCursor = Some ''abc123''\<rparr>"
    by (simp add: sample_URL_new sample_next_url searchParams_get_def)
  have enc: "urlencode ''abc123'' = ''abc123''"
    by (simp add: urlencode_def encode_byte_def form_safe_def)
  have curl: "cursor_url ?rt' \<lparr>origin_path = ''https://harvest.greenhouse.io/v3/jobs'', query = None,
                 searchParams = [], hash = []\<rparr> (SStr ''abc123'')
      = ''https://harvest.greenhouse.io/v3/jobs?cursor=abc123''"
    by (simp add: cursor_url_query with_query_def form_serialize_one urlencode_cursor enc)
  have req': "get_request ?rt' ''https://harvest.greenhouse.io/v3/jobs?cursor=abc123'' (JStr ''old'')
      = Inr ?req'"
    by (simp add: get_request_def)
  have "fetch ?rt' ?req' = Response ?res'"
    by (simp add: sample_api_reply TOKEN_URL_def)
  with req' curl have sent': "apiGetWithCursor ?rt' ''/jobs'' (SStr ''abc123'') SUndefined ?w
      = apiGetWithCursor ?rt' ''/jobs'' (SStr ''abc123'') SUndefined ?w
      \<and> (\<exists>u0 req. URL_new ?rt' (BASE_URL @ ''/jobs'') = Some u0
            \<and> get_request ?rt' (cursor_url ?rt' u0 (SStr ''abc123'')) (JStr ''old'') = Inr req
            \<and> fetch ?rt' req = Response ?res')"
    by (simp add: sample_URL_new sample_jobs_url)
  from nextCursor_from_link_header [OF sample_config sample_cached_token okr(2) _ disjI2 [OF sent']]
  have second: "fst (apiGetWithCursor ?rt' ''/jobs'' (SStr ''abc123'') SUndefined ?w)
      = Inr \<lparr>data = JArr [], nextCursor = None\<rparr>"
    by simp
  from first second show ?thesis by (simp add: json_reply_def)
qed

text \<open>
  C10. After a GET that is answered with a 2xx status and a JSON body, when the link
  header is matched at an entry tagged \<open>rel="next"\<close> and the URL of that entry has no
  \<open>cursor\<close> parameter, the call returns \<open>nextCursor = null\<close>, as it does when there is
  no further page.
\<close>

theorem nextCursor_null_without_cursor_parameter:
  assumes "config w = Some c"
    and "getAccessToken rt (clientId c) (clientSecret c) w = (Inr token, w1)"
    and "ok res" and "json res = Some d"
    and "call = apiGet rt path params w
           \<and> (\<exists>u req. buildUrl rt path params = Inr u \<and> get_request rt u token = Inr req
                 \<and> fetch rt req = Response res)
         \<or> call = apiGetWithCursor rt path cursor perPage w
           \<and> (\<exists>u0 req. URL_new rt (BASE_URL @ path) = Some u0
                 \<and> get_request rt (cursor_url rt u0 cursor) token = Inr req
                 \<and> fetch rt req = Response res)"
    and "linkHeader res = Some h" and "parseLinkHeader (Some h) = Some n"
    and "URL_new rt n = Some parsed" and "''cursor'' \<notin> fst ` set (searchParams parsed)"
  shows "next_entry h n \<and> fst call = Inr \<lparr>data = d, nextCursor = None\<rparr>"
proof -
  from assms(5) obtain req where call: "call = read_page rt (Response res) (log (Fetch req) w1)"
    using apiGet_sends [OF assms(1,2)] apiGetWithCursor_sends [OF assms(1,2)] by auto
  have "searchParams_get parsed ''cursor'' = None"
    using assms(9) by (simp add: searchParams_get_def map_of_eq_None_iff)
  moreover have "parseLinkHeader (linkHeader res) = Some n"
    using assms(6,7) by simp
  ultimately have "fst call = Inr \<lparr>data = d, nextCursor = None\<rparr>"
    unfolding call using read_page_next [OF assms(3,4) _ assms(8)] by simp
  moreover have "next_entry h n"
    using parseLinkHeader_Some [OF assms(7)] by simp
  ultimately show ?thesis by simp
qed


lemma sample_page_header:
  "parseLinkHeader (Some ''<https://host/v3/jobs?page=2>; rel=\"next\"'')
     = Some ''https://host/v3/jobs?page=2''"
  by (simp add: parseLinkHeader_def not_gt_def is_space_def)

lemma sample_page_url:
  "simple_URL_new ''https://host/v3/jobs?page=2'' =
     Some \<lparr>origin_path = ''https://host/v3/jobs'', query = Some ''page=2'',
            searchParams = [(''page'', ''2'')], hash = []\<rparr>"
  by (simp add: simple_URL_new_def form_parse_def parse_pair_def form_decode_def
        plus_to_space_def)

theorem nextCursor_null_without_cursor_parameter_witness:
  "fst (apiGet
          (sample_runtime token_reply
             (json_reply 200 ''OK'' ''[]'' (Some (JArr []))
                (Some ''<https://host/v3/jobs?page=2>; rel=\"next\"''))
             1000000)
          ''/jobs'' None (cached_world 1893456000000))
     = Inr \<lparr>data = JArr [], nextCursor = None\<rparr>
   \<and> next_entry ''<https://host/v3/jobs?page=2>; rel=\"next\"'' ''https://host/v3/jobs?page=2''"
proof -
  let ?h = "''<https://host/v3/jobs?page=2>; rel=\"next\"''"
  let ?res = "\<lparr>status = 200, statusText = ''OK'', bodyText = ''[]'', json = Some (JArr []),
                linkHeader = Some ?h\<rparr>"
  let ?rt = "sample_runtime token_reply (Response ?res) 1000000"
  let ?w = "cached_world 1893456000000"
  have url: "buildUrl ?rt ''/jobs'' None = Inr ''https://harvest.greenhouse.io/v3/jobs''"
    by (simp add: buildUrl_def sample_URL_new sample_jobs_url URL_toString_def)
  have req: "get_request ?rt ''https://harvest.greenhouse.io/v3/jobs'' (JStr ''old'')
      = Inr \<lparr>http_method = ''GET'', url = ''https://harvest.greenhouse.io/v3/jobs'',
             headers = [(''Authorization'', ''Bearer old''), (''Accept'', ''application/json'')],
             body = None\<rparr>"
    by (simp add: get_request_def)
  have "fetch ?rt \<lparr>http_method = ''GET'', url = ''https://harvest.greenhouse.io/v3/jobs'',
             headers = [(''Authorization'', ''Bearer old''), (''Accept'', ''application/json'')],
             body = None\<rparr> = Response ?res"
    by (simp add: sample_api_reply TOKEN_URL_def)
  with url req have sent: "apiGet ?rt ''/jobs'' None ?w = apiGet ?rt ''/jobs'' None ?w
      \<and> (\<exists>u req. buildUrl ?rt ''/jobs'' None = Inr u
            \<and> get_request ?rt u (JStr ''old'') = Inr req \<and> fetch ?rt req = Response ?res)"
    by simp
  have okr: "ok ?res" by (simp add: ok_def)
  have parsed: "URL_new ?rt ''https://host/v3/jobs?page=2'' =
      Some \<lparr>origin_path = ''https://host/v3/jobs'', query = Some ''page=2'',
             searchParams = [(''page'', ''2'')], hash = []\<rparr>"
    by (simp add: sample_URL_new sample_page_url)
  from nextCursor_null_without_cursor_parameter
         [OF sample_config sample_cached_token okr _ disjI1 [OF sent] _ sample_page_header parsed]
  show ?thesis by (simp add: json_reply_def)
qed

lemma apiPost_sends:
  assumes "config w = Some c"
    and "getAccessToken rt (clientId c) (clientSecret c) w = (Inr token, w1)"
    and "post_request rt path b token = Inr req"
    and "fetch rt req = Response res"
  shows "apiPost rt path b w =
           (if \<not> ok res
            then (Inl (Error (api_error_message res)), log ReadText (log (Fetch req) w1))
            else if status res = 204
            then (Inr \<lparr>data = JObj [], nextCursor = None\<rparr>, log (Fetch req) w1)
            else (case json res of
                    None \<Rightarrow> (Inl SyntaxError, log ReadJson (log (Fetch req) w1))
                  | Some d \<Rightarrow>
                      (Inr \<lparr>data = d, nextCursor = None\<rparr>, log ReadJson (log (Fetch req) w1))))"
  using assms by (simp add: apiPost_def getConfig_def Let_def)

lemma post_request_printable:
  "ToString rt token = Inr t \<Longrightarrow>
   post_request rt path b token =
     Inr \<lparr>http_method = ''POST'', url = BASE_URL @ path,
          headers = [(''Authorization'', ''Bearer '' @ t),
                     (''Content-Type'', ''application/json''),
                     (''Accept'', ''application/json'')],
          body = (if ToBoolean b then Some (JSON_stringify rt b) else None)\<rparr>"
  by (simp add: post_request_def)

lemma log_twice: "log e2 (log e1 w) = w\<lparr>trace := trace w @ [e1, e2]\<rparr>"
  by (simp add: log_def)

text \<open>
  C5. When the request of \<open>apiGet\<close>, \<open>apiGetWithCursor\<close> or \<open>apiPost\<close> is answered with
  a status outside 200 to 299, the call fails with the error whose message is
  \<open>Greenhouse API error:\<close>, the status code, the status text, a dash and the body as
  text. The body is read as text and not decoded, and the request is sent once: after
  the token is there, the call's effects are that request and that reading.
\<close>

theorem non_2xx_fails_with_raw_body:
  assumes "config w = Some c"
    and "getAccessToken rt (clientId c) (clientSecret c) w = (Inr token, w1)"
    and "call = apiGet rt path params w
           \<and> (\<exists>u. buildUrl rt path params = Inr u \<and> get_request rt u token = Inr req)
         \<or> call = apiGetWithCursor rt path cursor perPage w
           \<and> (\<exists>u0. URL_new rt (BASE_URL @ path) = Some u0
                 \<and> get_request rt (cursor_url rt u0 cursor) token = Inr req)
         \<or> call = apiPost rt path b w \<and> post_request rt path b token = Inr req"
    and "fetch rt req = Response res" and "\<not> ok res"
  shows "call =
           (Inl (Error (''Greenhouse API error: '' @ show_nat (status res) @ '' '' @ statusText res
                          @ '' - '' @ bodyText res)),
            w1\<lparr>trace := trace w1 @ [Fetch req, ReadText]\<rparr>)"
proof -
  have page: "read_page rt (fetch rt req) (log (Fetch req) w1)
      = (Inl (Error (api_error_message res)), w1\<lparr>trace := trace w1 @ [Fetch req, ReadText]\<rparr>)"
    using assms(4,5) by (simp add: read_page_error log_twice)
  from assms(3) have "call
      = (Inl (Error (api_error_message res)), w1\<lparr>trace := trace w1 @ [Fetch req, ReadText]\<rparr>)"
  proof (elim disjE conjE exE)
    fix u
    assume "call = apiGet rt path params w" "buildUrl rt path params = Inr u"
      "get_request rt u token = Inr req"
    with apiGet_sends [OF assms(1,2)] page show ?thesis by simp
  next
    fix u0
    assume "call = apiGetWithCursor rt path cursor perPage w"
      "URL_new rt (BASE_URL @ path) = Some u0"
      "get_request rt (cursor_url rt u0 cursor) token = Inr req"
    with apiGetWithCursor_sends [OF assms(1,2)] page show ?thesis by simp
  next
    assume "call = apiPost rt path b w" "post_request rt path b token = Inr req"
    with apiPost_sends [OF assms(1,2) _ assms(4)] assms(5) show ?thesis
      by (simp add: log_twice)
  qed
  then show ?thesis by (simp add: api_error_message_def)
qed

lemma show_nat_404: "show_nat 404 = ''404''"
  by (simp add: show_nat.simps digit_char_def)

theorem non_2xx_fails_with_raw_body_witness:
  "apiGet (sample_runtime token_reply (json_reply 404 ''Not Found'' ''not found'' None None) 1000000)
      ''/jobs/7'' None (cached_world 1893456000000)
     = (Inl (Error ''Greenhouse API error: 404 Not Found - not found''),
        (cached_world 1893456000000)
          \<lparr>trace := [Fetch \<lparr>http_method = ''GET'',
                             url = ''https://harvest.greenhouse.io/v3/jobs/7'',
                             headers = [(''Authorization'', ''Bearer old''),
                                        (''Accept'', ''application/json'')],
                             body = None\<rparr>,
                      ReadText]\<rparr>)"
proof -
  let ?res = "\<lparr>status = 404, statusText = ''Not Found'', bodyText = ''not found'',
                json = None, linkHeader = None\<rparr>"
  let ?rt = "sample_runtime token_reply (Response ?res) 1000000"
  let ?w = "cached_world 1893456000000"
  let ?req = "\<lparr>http_method = ''GET'', url = ''https://harvest.greenhouse.io/v3/jobs/7'',
                headers = [(''Authorization'', ''Bearer old''), (''Accept'', ''application/json'')],
                body = None\<rparr>"
  have url: "buildUrl ?rt ''/jobs/7'' None = Inr ''https://harvest.greenhouse.io/v3/jobs/7''"
    by (simp add: buildUrl_def sample_URL_new simple_URL_new_def BASE_URL_def form_parse_def
          URL_toString_def)
  have req: "get_request ?rt ''https://harvest.greenhouse.io/v3/jobs/7'' (JStr ''old'') = Inr ?req"
    by (simp add: get_request_def)
  have reply: "fetch ?rt ?req = Response ?res"
    by (simp add: sample_api_reply TOKEN_URL_def)
  have nok: "\<not> ok ?res" by (simp add: ok_def)
  have which: "apiGet ?rt ''/jobs/7'' None ?w = apiGet ?rt ''/jobs/7'' None ?w
      \<and> (\<exists>u. buildUrl ?rt ''/jobs/7'' None = Inr u \<and> get_request ?rt u (JStr ''old'') = Inr ?req)"
    using url req by simp
  from non_2xx_fails_with_raw_body [OF sample_config sample_cached_token disjI1 [OF which] reply nok]
  show ?thesis
    by (simp add: json_reply_def show_nat_404 sample_trace)
qed

lemma apiPost_success_cursor:
  "apiPost rt path b w = (Inr env, w') \<Longrightarrow> nextCursor env = None"
  unfolding apiPost_def Let_def
  by (auto split: sum.splits prod.splits reply.splits if_splits option.splits)

text \<open>
  C6. When the request of \<open>apiPost\<close> is answered with status 204, the call returns
  \<open>{data: {}, nextCursor: null}\<close> and the body is not decoded: after the token is
  there, the call's only effect is the request. Every call of \<open>apiPost\<close> that succeeds,
  whatever the status, returns \<open>nextCursor = null\<close>.
\<close>

theorem apiPost_204_and_null_cursor:
  "(\<forall>c token w1 req res.
      config w = Some c
      \<and> getAccessToken rt (clientId c) (clientSecret c) w = (Inr token, w1)
      \<and> post_request rt path b token = Inr req
      \<and> fetch rt req = Response res \<and> status res = 204
      \<longrightarrow> apiPost rt path b w =
            (Inr \<lparr>data = JObj [], nextCursor = None\<rparr>, w1\<lparr>trace := trace w1 @ [Fetch req]\<rparr>))
   \<and> (\<forall>env w'. apiPost rt path b w = (Inr env, w') \<longrightarrow> nextCursor env = None)"
proof (intro conjI allI impI)
  fix c token w1 req res
  assume h: "config w = Some c
      \<and> getAccessToken rt (clientId c) (clientSecret c) w = (Inr token, w1)
      \<and> post_request rt path b token = Inr req
      \<and> fetch rt req = Response res \<and> status res = 204"
  then have "ok res" by (simp add: ok_def)
  with h apiPost_sends [of w c rt token w1 path b req res]
  show "apiPost rt path b w =
          (Inr \<lparr>data = JObj [], nextCursor = None\<rparr>, w1\<lparr>trace := trace w1 @ [Fetch req]\<rparr>)"
    by (simp add: log_def)
next
  fix env w'
  assume "apiPost rt path b w = (Inr env, w')"
  then show "nextCursor env = None" by (rule apiPost_success_cursor)
qed

theorem apiPost_204_and_null_cursor_witness:
  "apiPost (sample_runtime token_reply (json_reply 204 ''No Content'' [] None None) 1000000)
      ''/applications/12345/reject'' (JObj [(''rejection_reason_id'', JNum (Finite 678))])
      (cached_world 1893456000000)
     = (Inr \<lparr>data = JObj [], nextCursor = None\<rparr>,
        (cached_world 1893456000000)
          \<lparr>trace := [Fetch \<lparr>http_method = ''POST'',
                             url = ''https://harvest.greenhouse.io/v3/applications/12345/reject'',
                             headers = [(''Authorization'', ''Bearer old''),
                                        (''Content-Type'', ''application/json''),
                                        (''Accept'', ''application/json'')],
                             body = Some ''{\"rejection_reason_id\":678}''\<rparr>]\<rparr>)
   \<and> nextCursor \<lparr>data = JObj [], nextCursor = None\<rparr> = None"
proof -
  let ?res = "\<lparr>status = 204, statusText = ''No Content'', bodyText = [], json = None,
                linkHeader = None\<rparr>"
  let ?rt = "sample_runtime token_reply (Response ?res) 1000000"
  let ?w = "cached_world 1893456000000"
  let ?b = "JObj [(''rejection_reason_id'', JNum (Finite 678))]"
  let ?req = "\<lparr>http_method = ''POST'',
                url = ''https://harvest.greenhouse.io/v3/applications/12345/reject'',
                headers = [(''Authorization'', ''Bearer old''),
                           (''Content-Type'', ''application/json''),
                           (''Accept'', ''application/json'')],
                body = Some ''{\"rejection_reason_id\":678}''\<rparr>"
  have req: "post_request ?rt ''/applications/12345/reject'' ?b (JStr ''old'') = Inr ?req"
    by (simp add: post_request_def BASE_URL_def sample_runtime_def)
  have reply: "fetch ?rt ?req = Response ?res"
    by (simp add: sample_runtime_def TOKEN_URL_def)
  from apiPost_204_and_null_cursor [of ?w ?rt "''/applications/12345/reject''" ?b]
  have "apiPost ?rt ''/applications/12345/reject'' ?b ?w
      = (Inr \<lparr>data = JObj [], nextCursor = None\<rparr>, ?w\<lparr>trace := trace ?w @ [Fetch ?req]\<rparr>)"
    using sample_config sample_cached_token req reply by (metis response.select_convs(1))
  then show ?thesis
    by (simp add: json_reply_def sample_trace)
qed

text \<open>
  C8. The \<open>perPage\<close> argument of \<open>apiGetWithCursor\<close> has no effect: two calls with the
  same path and cursor, in the same state and with the same network, give the same
  result and the same effects, so the same request, whatever their \<open>perPage\<close>.
\<close>

theorem apiGetWithCursor_ignores_perPage:
  "apiGetWithCursor rt path cursor p1 w = apiGetWithCursor rt path cursor p2 w"
  by (simp add: apiGetWithCursor_def)

lemma getProp_defined:
  "d \<noteq> JNull \<Longrightarrow> d \<noteq> JUndefined \<Longrightarrow> \<exists>v. getProp d name = Inr v"
  by (cases d) simp_all

lemma getProp_absent: "name \<notin> fst ` set kvs \<Longrightarrow> getProp (JObj kvs) name = Inr JUndefined"
proof -
  assume "name \<notin> fst ` set kvs"
  then have "map_of (rev kvs) name = None"
    by (simp add: map_of_eq_None_iff)
  then show ?thesis by simp
qed

lemma new_Date_getTime_primitive:
  "\<not> is_object v \<Longrightarrow> new_Date_getTime rt v = Inr (Date_getTime rt v)"
  by (simp add: new_Date_getTime_def)

lemma new_Date_getTime_fails_iff:
  "new_Date_getTime rt v = Inl e \<longleftrightarrow> is_object v \<and> ToString rt v = Inl e"
  by (auto simp: new_Date_getTime_def split: sum.splits)

text \<open>
  C7, as the program has it. On a 2xx reply of the token endpoint, \<open>getAccessToken\<close>
  fails in three cases only. The body is not JSON: a \<open>SyntaxError\<close>, the cache as it
  was. The body decodes to \<open>null\<close>: a \<open>TypeError\<close>, the cache as it was. The body's
  \<open>expires_at\<close> is an object or an array that has no primitive value, as an object
  with a member \<open>toString\<close> is: a \<open>TypeError\<close> from \<open>new Date\<close>, raised after the
  body's \<open>access_token\<close> went into the cache, where it stays with the old expiry. Any
  other decoded body is taken as it is, well formed or not: the call raises nothing,
  it caches and returns the body's \<open>access_token\<close> property (\<open>undefined\<close> when there is
  none) and records \<open>new Date(expires_at).getTime()\<close> as the expiry.
\<close>

theorem getAccessToken_takes_any_decoded_body:
  assumes "\<not> fresh rt w" and "fetch rt (token_request rt cid secret) = Response res"
    and "ok res"
  shows "(json res = None \<longrightarrow>
            getAccessToken rt cid secret w =
              (Inl SyntaxError,
               w\<lparr>trace := trace w @ [Fetch (token_request rt cid secret), ReadJson]\<rparr>))
       \<and> (json res = Some JNull \<longrightarrow>
            getAccessToken rt cid secret w =
              (Inl TypeError,
               w\<lparr>trace := trace w @ [Fetch (token_request rt cid secret), ReadJson]\<rparr>))
       \<and> (\<forall>d. json res = Some d \<and> d \<noteq> JNull \<and> d \<noteq> JUndefined \<longrightarrow>
            (\<exists>tok ex. getProp d ''access_token'' = Inr tok \<and> getProp d ''expires_at'' = Inr ex
               \<and> getAccessToken rt cid secret w =
                   (case new_Date_getTime rt ex of
                      Inl e \<Rightarrow>
                        (Inl e,
                         w\<lparr>cachedToken := tok,
                           trace := trace w @ [Fetch (token_request rt cid secret), ReadJson]\<rparr>)
                    | Inr t \<Rightarrow>
                        (Inr tok,
                         w\<lparr>cachedToken := tok, tokenExpiresAt := t,
                           trace := trace w @ [Fetch (token_request rt cid secret), ReadJson]\<rparr>))))
       \<and> (\<forall>ex e. new_Date_getTime rt ex = Inl e \<longleftrightarrow> is_object ex \<and> ToString rt ex = Inl e)
       \<and> (\<forall>ex. \<not> is_object ex \<longrightarrow> new_Date_getTime rt ex = Inr (Date_getTime rt ex))
       \<and> (\<forall>kvs. new_Date_getTime rt (JObj kvs) =
             (if ''toString'' \<in> fst ` set kvs then Inl TypeError
              else Inr (Date_getTime rt (JStr ''[object Object]''))))
       \<and> (\<forall>kvs. json res = Some (JObj kvs) \<and> ''access_token'' \<notin> fst ` set kvs
                  \<and> ''expires_at'' \<notin> fst ` set kvs \<longrightarrow>
             getAccessToken rt cid secret w =
               (Inr JUndefined,
                w\<lparr>cachedToken := JUndefined, tokenExpiresAt := Date_getTime rt JUndefined,
                  trace := trace w @ [Fetch (token_request rt cid secret), ReadJson]\<rparr>))"
proof (intro conjI allI impI)
  assume "json res = None"
  with assms(2,3) show "getAccessToken rt cid secret w =
      (Inl SyntaxError, w\<lparr>trace := trace w @ [Fetch (token_request rt cid secret), ReadJson]\<rparr>)"
    by (simp add: getAccessToken_stale [OF assms(1)] log_twice)
next
  assume "json res = Some JNull"
  with assms(2,3) show "getAccessToken rt cid secret w =
      (Inl TypeError, w\<lparr>trace := trace w @ [Fetch (token_request rt cid secret), ReadJson]\<rparr>)"
    by (simp add: getAccessToken_stale [OF assms(1)] log_twice)
next
  fix d
  assume d: "json res = Some d \<and> d \<noteq> JNull \<and> d \<noteq> JUndefined"
  then obtain tok ex where p: "getProp d ''access_token'' = Inr tok" "getProp d ''expires_at'' = Inr ex"
    using getProp_defined by blast
  with d assms(2,3) have "getAccessToken rt cid secret w =
      (case new_Date_getTime rt ex of
         Inl e \<Rightarrow>
           (Inl e,
            w\<lparr>cachedToken := tok,
              trace := trace w @ [Fetch (token_request rt cid secret), ReadJson]\<rparr>)
       | Inr t \<Rightarrow>
           (Inr tok,
            w\<lparr>cachedToken := tok, tokenExpiresAt := t,
              trace := trace w @ [Fetch (token_request rt cid secret), ReadJson]\<rparr>))"
    by (simp add: getAccessToken_stale [OF assms(1)] log_def split: sum.splits)
  with p show "\<exists>tok ex. getProp d ''access_token'' = Inr tok \<and> getProp d ''expires_at'' = Inr ex
      \<and> getAccessToken rt cid secret w =
          (case new_Date_getTime rt ex of
             Inl e \<Rightarrow>
               (Inl e,
                w\<lparr>cachedToken := tok,
                  trace := trace w @ [Fetch (token_request rt cid secret), ReadJson]\<rparr>)
           | Inr t \<Rightarrow>
               (Inr tok,
                w\<lparr>cachedToken := tok, tokenExpiresAt := t,
                  trace := trace w @ [Fetch (token_request rt cid secret), ReadJson]\<rparr>))"
    by blast
next
  fix ex e
  show "new_Date_getTime rt ex = Inl e \<longleftrightarrow> is_object ex \<and> ToString rt ex = Inl e"
    by (rule new_Date_getTime_fails_iff)
next
  fix ex
  assume "\<not> is_object ex"
  then show "new_Date_getTime rt ex = Inr (Date_getTime rt ex)"
    by (rule new_Date_getTime_primitive)
next
  fix kvs
  show "new_Date_getTime rt (JObj kvs) =
      (if ''toString'' \<in> fst ` set kvs then Inl TypeError
       else Inr (Date_getTime rt (JStr ''[object Object]'')))"
    by (simp add: new_Date_getTime_def)
next
  fix kvs
  assume "json res = Some (JObj kvs) \<and> ''access_token'' \<notin> fst ` set kvs
      \<and> ''expires_at'' \<notin> fst ` set kvs"
  with assms(2,3) show "getAccessToken rt cid secret w =
      (Inr JUndefined,
       w\<lparr>cachedToken := JUndefined, tokenExpiresAt := Date_getTime rt JUndefined,
         trace := trace w @ [Fetch (token_request rt cid secret), ReadJson]\<rparr>)"
    by (simp add: getAccessToken_stale [OF assms(1)] getProp_absent new_Date_getTime_primitive
          log_def del: getProp.simps)
qed


lemma sample_stale: "\<not> fresh (sample_runtime tr ar now) (configure ''cid'' ''secret'' initial_world)"
  by (simp add: fresh_def configure_def initial_world_def)

lemma sample_token_fetch:
  "fetch (sample_runtime tr ar now) (token_request (sample_runtime tr ar now) cid secret) = tr"
  by (simp add: sample_runtime_def token_request_def Let_def)

theorem getAccessToken_takes_any_decoded_body_witness:
  "fst (getAccessToken
          (sample_runtime (json_reply 200 ''OK'' ''{\"token_type\":\"Bearer\"}''
                             (Some (JObj [(''token_type'', JStr ''Bearer'')])) None)
             NetworkError 1000000)
          ''cid'' ''secret'' (configure ''cid'' ''secret'' initial_world))
     = Inr JUndefined
   \<and> fst (getAccessToken
          (sample_runtime (json_reply 200 ''OK'' ''<html>'' None None) NetworkError 1000000)
          ''cid'' ''secret'' (configure ''cid'' ''secret'' initial_world))
     = Inl SyntaxError
   \<and> fst (getAccessToken
          (sample_runtime
             (json_reply 200 ''OK''
                ''{\"access_token\":\"t\",\"expires_at\":{\"toString\":null,\"valueOf\":null}}''
                (Some (JObj [(''access_token'', JStr ''t''),
                             (''expires_at'', JObj [(''toString'', JNull), (''valueOf'', JNull)])]))
                None)
             NetworkError 1000000)
          ''cid'' ''secret'' (configure ''cid'' ''secret'' initial_world))
     = Inl TypeError
   \<and> cachedToken (snd (getAccessToken
          (sample_runtime
             (json_reply 200 ''OK''
                ''{\"access_token\":\"t\",\"expires_at\":{\"toString\":null,\"valueOf\":null}}''
                (Some (JObj [(''access_token'', JStr ''t''),
                             (''expires_at'', JObj [(''toString'', JNull), (''valueOf'', JNull)])]))
                None)
             NetworkError 1000000)
          ''cid'' ''secret'' (configure ''cid'' ''secret'' initial_world)))
     = JStr ''t''"
proof -
  let ?res = "\<lparr>status = 200, statusText = ''OK'', bodyText = ''{\"token_type\":\"Bearer\"}'',
                json = Some (JObj [(''token_type'', JStr ''Bearer'')]), linkHeader = None\<rparr>"
  let ?res' = "\<lparr>status = 200, statusText = ''OK'', bodyText = ''<html>'', json = None,
                 linkHeader = None\<rparr>"
  let ?d = "JObj [(''access_token'', JStr ''t''),
                  (''expires_at'', JObj [(''toString'', JNull), (''valueOf'', JNull)])]"
  let ?res'' = "\<lparr>status = 200, statusText = ''OK'',
                  bodyText = ''{\"access_token\":\"t\",\"expires_at\":{\"toString\":null,\"valueOf\":null}}'',
                  json = Some ?d, linkHeader = None\<rparr>"
  have okr: "ok ?res" "ok ?res'" "ok ?res''" by (simp_all add: ok_def)
  have f: "fetch (sample_runtime (Response ?res) NetworkError 1000000)
             (token_request (sample_runtime (Response ?res) NetworkError 1000000) ''cid'' ''secret'')
           = Response ?res"
    and f': "fetch (sample_runtime (Response ?res') NetworkError 1000000)
             (token_request (sample_runtime (Response ?res') NetworkError 1000000) ''cid'' ''secret'')
           = Response ?res'"
    and f'': "fetch (sample_runtime (Response ?res'') NetworkError 1000000)
             (token_request (sample_runtime (Response ?res'') NetworkError 1000000) ''cid'' ''secret'')
           = Response ?res''"
    by (rule sample_token_fetch)+
  have a: "fst (getAccessToken (sample_runtime (Response ?res) NetworkError 1000000)
                  ''cid'' ''secret'' (configure ''cid'' ''secret'' initial_world)) = Inr JUndefined"
    using getAccessToken_takes_any_decoded_body [OF sample_stale f okr(1)] by simp
  have b: "fst (getAccessToken (sample_runtime (Response ?res') NetworkError 1000000)
                  ''cid'' ''secret'' (configure ''cid'' ''secret'' initial_world)) = Inl SyntaxError"
    using getAccessToken_takes_any_decoded_body [OF sample_stale f' okr(2)] by simp
  have props: "getProp ?d ''access_token'' = Inr (JStr ''t'')"
      "getProp ?d ''expires_at'' = Inr (JObj [(''toString'', JNull), (''valueOf'', JNull)])"
    by simp_all
  from getAccessToken_takes_any_decoded_body [OF sample_stale f'' okr(3)]
  have "\<exists>tok ex. getProp ?d ''access_token'' = Inr tok \<and> getProp ?d ''expires_at'' = Inr ex
      \<and> getAccessToken (sample_runtime (Response ?res'') NetworkError 1000000) ''cid'' ''secret''
            (configure ''cid'' ''secret'' initial_world) =
          (case new_Date_getTime (sample_runtime (Response ?res'') NetworkError 1000000) ex of
             Inl e \<Rightarrow>
               (Inl e,
                (configure ''cid'' ''secret'' initial_world)
                  \<lparr>cachedToken := tok,
                   trace := trace (configure ''cid'' ''secret'' initial_world)
                     @ [Fetch (token_request (sample_runtime (Response ?res'') NetworkError 1000000)
                                 ''cid'' ''secret''), ReadJson]\<rparr>)
           | Inr t \<Rightarrow>
               (Inr tok,
                (configure ''cid'' ''secret'' initial_world)
                  \<lparr>cachedToken := tok, tokenExpiresAt := t,
                   trace := trace (configure ''cid'' ''secret'' initial_world)
                     @ [Fetch (token_request (sample_runtime (Response ?res'') NetworkError 1000000)
                                 ''cid'' ''secret''), ReadJson]\<rparr>))"
    by simp
  then have c: "fst (getAccessToken (sample_runtime (Response ?res'') NetworkError 1000000)
                       ''cid'' ''secret'' (configure ''cid'' ''secret'' initial_world)) = Inl TypeError
      \<and> cachedToken (snd (getAccessToken (sample_runtime (Response ?res'') NetworkError 1000000)
                       ''cid'' ''secret'' (configure ''cid'' ''secret'' initial_world))) = JStr ''t''"
    unfolding props by (auto simp: new_Date_getTime_def)
  from a b c show ?thesis by (simp add: json_reply_def)
qed

text \<open>
  C7, as the specification has it, fails: a 2xx reply whose JSON body has neither
  \<open>access_token\<close> nor \<open>expires_at\<close> is not well formed, and the call returns
  \<open>undefined\<close> to its caller instead of failing.
\<close>

theorem malformed_token_body_returns_undefined:
  "\<not> well_formed_token
        (sample_runtime (json_reply 200 ''OK'' ''{}'' (Some (JObj [])) None) NetworkError 1000000)
        (JObj [])
   \<and> getAccessToken
        (sample_runtime (json_reply 200 ''OK'' ''{}'' (Some (JObj [])) None) NetworkError 1000000)
        ''cid'' ''secret'' (configure ''cid'' ''secret'' initial_world)
     = (Inr JUndefined,
        \<lparr>cachedToken = JUndefined, tokenExpiresAt = None,
         config = Some \<lparr>clientId = ''cid'', clientSecret = ''secret''\<rparr>,
         trace = [Fetch \<lparr>http_method = ''POST'', url = ''https://auth.greenhouse.io/token'',
                         headers = [(''Authorization'', ''Basic Y2lkOnNlY3JldA==''),
                                    (''Content-Type'', ''application/x-www-form-urlencoded'')],
                         body = Some ''grant_type=client_credentials''\<rparr>,
                  ReadJson]\<rparr>)"
proof -
  have "getAccessToken
        (sample_runtime (json_reply 200 ''OK'' ''{}'' (Some (JObj [])) None) NetworkError 1000000)
        ''cid'' ''secret'' (configure ''cid'' ''secret'' initial_world)
     = (Inr JUndefined,
        \<lparr>cachedToken = JUndefined, tokenExpiresAt = None,
         config = Some \<lparr>clientId = ''cid'', clientSecret = ''secret''\<rparr>,
         trace = [Fetch \<lparr>http_method = ''POST'', url = ''https://auth.greenhouse.io/token'',
                         headers = [(''Authorization'', ''Basic Y2lkOnNlY3JldA==''),
                                    (''Content-Type'', ''application/x-www-form-urlencoded'')],
                         body = Some ''grant_type=client_credentials''\<rparr>,
                  ReadJson]\<rparr>)"
    by (simp add: getAccessToken_stale [OF sample_stale] sample_token_fetch sample_token_request)
       (simp add: json_reply_def ok_def log_def sample_runtime_def simple_Date_getTime_def
          new_Date_getTime_def configure_def initial_world_def TOKEN_URL_def)
  then show ?thesis by (simp add: well_formed_token_def)
qed

text \<open>
  C9. \<open>apiGet\<close> does not look at the keys of its bag. A bag that has a cursor under
  the key \<open>cursor\<close> and a filter under another key goes out as it is: the call builds
  and sends one request whose URL has a query string that carries the cursor together
  with the filter, and goes on to read the reply; no error is raised for it.
\<close>

theorem apiGet_sends_cursor_with_filters:
  assumes "URL_new rt (BASE_URL @ path) = Some u0" and "searchParams u0 = []"
    and "query u0 = None" and "distinct (map fst ps)"
    and "config w = Some c"
    and "getAccessToken rt (clientId c) (clientSecret c) w = (Inr token, w1)"
    and "ToString rt token = Inr bearer"
    and "(''cursor'', SStr k) \<in> set ps" and "k \<noteq> []"
    and "(key, v) \<in> set ps" and "key \<noteq> ''cursor''" and "v \<noteq> SUndefined" and "v \<noteq> SStr []"
  shows "apiGet rt path (Some ps) w =
           read_page rt
             (fetch rt
                \<lparr>http_method = ''GET'',
                 url = origin_path u0 @ ''?'' @ form_serialize (sent_entries rt ps) @ hash u0,
                 headers = [(''Authorization'', ''Bearer '' @ bearer),
                            (''Accept'', ''application/json'')],
                 body = None\<rparr>)
             (log (Fetch
                     \<lparr>http_method = ''GET'',
                      url = origin_path u0 @ ''?'' @ form_serialize (sent_entries rt ps) @ hash u0,
                      headers = [(''Authorization'', ''Bearer '' @ bearer),
                                 (''Accept'', ''application/json'')],
                      body = None\<rparr>) w1)
       \<and> (''cursor'', k) \<in> set (form_parse (form_serialize (sent_entries rt ps)))
       \<and> (key, String rt v) \<in> set (form_parse (form_serialize (sent_entries rt ps)))"
proof -
  have c: "(''cursor'', k) \<in> set (sent_entries rt ps)"
    using assms(8,9) by (force simp: sent_entries_def)
  have f: "(key, String rt v) \<in> set (sent_entries rt ps)"
    using assms(10,12,13) by (force simp: sent_entries_def)
  from c have ne: "sent_entries rt ps \<noteq> []" by auto
  have "apiGet rt path (Some ps) w =
      read_page rt
        (fetch rt \<lparr>http_method = ''GET'', url = with_query u0 (sent_entries rt ps),
                   headers = [(''Authorization'', ''Bearer '' @ bearer),
                              (''Accept'', ''application/json'')],
                   body = None\<rparr>)
        (log (Fetch \<lparr>http_method = ''GET'', url = with_query u0 (sent_entries rt ps),
                     headers = [(''Authorization'', ''Bearer '' @ bearer),
                                (''Accept'', ''application/json'')],
                     body = None\<rparr>) w1)"
    by (rule apiGet_sends [OF assms(5,6) buildUrl_with_query [OF assms(1-4)]
          get_request_printable [OF assms(7)]])
  with ne c f show ?thesis
    by (simp add: with_query_def form_parse_serialize)
qed

theorem apiGet_sends_cursor_with_filters_witness:
  "apiGet (sample_runtime token_reply (json_reply 200 ''OK'' ''[]'' (Some (JArr [])) None) 1000000)
      ''/jobs'' (Some [(''cursor'', SStr ''abc123''), (''status'', SStr ''open'')])
      (cached_world 1893456000000)
     = (Inr \<lparr>data = JArr [], nextCursor = None\<rparr>,
        (cached_world 1893456000000)
          \<lparr>trace := [Fetch \<lparr>http_method = ''GET'',
                             url = ''https://harvest.greenhouse.io/v3/jobs?cursor=abc123&status=open'',
                             headers = [(''Authorization'', ''Bearer old''),
                                        (''Accept'', ''application/json'')],
                             body = None\<rparr>,
                      ReadJson]\<rparr>)
   \<and> form_parse ''cursor=abc123&status=open'' = [(''cursor'', ''abc123''), (''status'', ''open'')]"
proof -
  let ?rt = "sample_runtime token_reply (json_reply 200 ''OK'' ''[]'' (Some (JArr [])) None) 1000000"
  let ?ps = "[(''cursor'', SStr ''abc123''), (''status'', SStr ''open'')]"
  have u0: "URL_new ?rt (BASE_URL @ ''/jobs'') =
      Some \<lparr>origin_path = ''https://harvest.greenhouse.io/v3/jobs'', query = None,
             searchParams = [], hash = []\<rparr>"
    by (simp add: sample_URL_new sample_jobs_url)
  have d: "distinct (map fst ?ps)" by simp
  have se: "sent_entries ?rt ?ps = [(''cursor'', ''abc123''), (''status'', ''open'')]"
    by (simp add: sent_entries_def)
  have q: "form_serialize [(''cursor'', ''abc123''), (''status'', ''open'')]
      = ''cursor=abc123&status=open''"
    by (simp add: form_serialize_def urlencode_def encode_byte_def form_safe_def)
  have p: "form_parse ''cursor=abc123&status=open'' = [(''cursor'', ''abc123''), (''status'', ''open'')]"
    using form_parse_serialize [of "[(''cursor'', ''abc123''), (''status'', ''open'')]"]
    unfolding q .
  from apiGet_sends_cursor_with_filters
         [OF u0 _ _ d sample_config sample_cached_token sample_bearer,
          of "''abc123''" "''status''" "SStr ''open''"]
  show ?thesis
    by (simp add: se q p sample_api_reply TOKEN_URL_def sample_page log_def sample_trace)
qed

end
